theory Spec2Isabelle
  imports Complex_Main "HOL-Library.Sublist"
begin

section \<open>Python values used by train.py\<close>

text \<open>
  Exceptions are values. \<open>KeyError\<close> is what a failed dictionary subscript raises;
  \<open>Raised msg\<close> stands for any exception that comes out of a call into the framework
  (transformers, pandas, the helper module \<^verbatim>\<open>src.utils\<close>).
\<close>

datatype error = KeyError | Raised string

text \<open>
  \<^verbatim>\<open>args.attention_size\<close> and \<^verbatim>\<open>args.lr\<close> are declared \<^verbatim>\<open>type=float\<close>; the default of
  \<^verbatim>\<open>attention_size\<close> is the integer 7, which argparse does not convert. A finite float
  is a rational number, so a number is an integer, a finite float carrying its exact
  value, NaN, or an infinity (\<open>PyInf True\<close> is the positive one).
\<close>

datatype number = PyInt int | PyFloat rat | PyNaN | PyInf bool

text \<open>Python's \<^verbatim>\<open>==\<close> on numbers: exact numeric comparison, NaN equal to nothing.\<close>

fun py_eq :: "number \<Rightarrow> number \<Rightarrow> bool" where
  "py_eq (PyInt i) (PyInt j) = (i = j)"
| "py_eq (PyInt i) (PyFloat q) = (of_int i = q)"
| "py_eq (PyFloat q) (PyInt j) = (q = of_int j)"
| "py_eq (PyFloat q) (PyFloat r) = (q = r)"
| "py_eq (PyInf a) (PyInf b) = (a = b)"
| "py_eq _ _ = False"

text \<open>
  \<^verbatim>\<open>d[x]\<close> on a dictionary with numeric keys, the dictionary written as the list of its
  items: the value of the key equal to \<open>x\<close>, and \<^verbatim>\<open>KeyError\<close> when there is none.
\<close>

fun getitem :: "(number \<times> 'v) list \<Rightarrow> number \<Rightarrow> error + 'v" where
  "getitem [] x = Inl KeyError"
| "getitem ((key, v) # d) x = (if py_eq key x then Inr v else getitem d x)"

text \<open>
  \<^verbatim>\<open>os.path.join(a, b)\<close> on a POSIX system: an absolute \<open>b\<close> replaces \<open>a\<close>; otherwise
  \<open>b\<close> is appended, after a separator unless \<open>a\<close> is empty or ends with one.
\<close>

definition path_join :: "string \<Rightarrow> string \<Rightarrow> string" where
  "path_join a b =
     (if prefix ''/'' b then b
      else if a = [] \<or> suffix ''/'' a then a @ b
      else a @ ''/'' @ b)"

text \<open>
  The substring test \<^verbatim>\<open>s in t\<close> on strings is \<^term>\<open>sublist s t\<close>: \<open>t\<close> is \<open>s\<close> between
  some prefix and some suffix.
\<close>

section \<open>Constants of train.py (lines 19-22)\<close>

definition PARAMS2REDUCE_FACTOR :: "(number \<times> int) list" where
  "PARAMS2REDUCE_FACTOR =
     [(PyInt 28, 1), (PyInt 14, 2), (PyInt 7, 4), (PyFloat (7 / 2), 8), (PyFloat (7 / 4), 16)]"

definition PAD_TOKEN :: string where
  "PAD_TOKEN = ''!''"

definition EOS_TOKEN :: string where
  "EOS_TOKEN = ''.''"

definition CAPTION_LENGTH :: int where
  "CAPTION_LENGTH = 25"

section \<open>The command line (lines 142-165)\<close>

record args =
  features_dir :: string
  annotations_path :: string
  captions_path :: string
  experiments_dir :: string
  encoder_name :: string
  decoder_name :: string
  attention_size :: number
  train_decoder :: bool
  disable_rag :: bool
  k :: int
  retrieval_encoder :: string
  template_path :: string
  n_epochs :: int
  lr :: number
  batch_size :: int
  gradient_steps :: int
  ablation_visual :: bool

text \<open>
  The namespace argparse returns when no option is given. The default learning rate is
  the double nearest to 0.0001, written by its exact value.
\<close>

definition default_args :: args where
  "default_args =
     \<lparr> features_dir = ''/kaggle/working/features/'',
       annotations_path = ''/kaggle/input/karpathy-splits/dataset_coco.json'',
       captions_path = ''/kaggle/working/retrieved_caps_resnet50x64.json'',
       experiments_dir = ''/kaggle/working/'',
       encoder_name = ''openai/clip-vit-base-patch32'',
       decoder_name = ''gpt2'',
       attention_size = PyInt 7,
       train_decoder = False,
       disable_rag = False,
       k = 4,
       retrieval_encoder = ''RN50x64'',
       template_path = ''/kaggle/working/smallcap/src/template.txt'',
       n_epochs = 10,
       lr = PyFloat (7378697629483821 / 73786976294838206464),
       batch_size = 64,
       gradient_steps = 1,
       ablation_visual = False \<rparr>"

section \<open>Framework objects\<close>

text \<open>
  The model, the tokenizer, the datasets and the trainer are classes of the framework or
  of modules outside train.py. They are modelled by the attributes train.py reads and
  writes. A parameter tensor is its \<^verbatim>\<open>requires_grad\<close> flag and its shape (\<^verbatim>\<open>p.size()\<close>);
  a module's \<^verbatim>\<open>parameters()\<close> is a list of tensors and its \<^verbatim>\<open>named_parameters()\<close> a list
  of (name, tensor) pairs. The encoder and the decoder are separate modules, loaded from
  separate checkpoints, and each tensor is listed once, so the lists hold the tensors by
  value. A configuration attribute that may be absent or \<^verbatim>\<open>None\<close> is an option.
\<close>

record param =
  requires_grad :: bool
  size_p :: "nat list"

record decoder_config =
  vocab_size :: int

record config =
  vocab_size :: int
  decoder :: decoder_config
  decoder_start_token_id :: "int option"
  pad_token_id :: "int option"
  eos_token_id :: "int option"
  k :: "int option"
  retrieval_encoder :: "string option"
  max_length :: int
  rag :: bool

record model =
  config :: config
  encoder :: "param list"
  decoder :: "(string \<times> param) list"

text \<open>\<^verbatim>\<open>model.parameters()\<close>: the tensors of the two sub-modules.\<close>

definition parameters :: "model \<Rightarrow> param list" where
  "parameters m = model.encoder m @ map snd (model.decoder m)"

record tokenizer =
  pad_token :: "string option"
  eos_token :: "string option"
  convert_tokens_to_ids :: "string \<Rightarrow> int option"

text \<open>
  The tokenizer's properties \<^verbatim>\<open>pad_token_id\<close> and \<^verbatim>\<open>eos_token_id\<close>: the id of the
  special token in the vocabulary, \<^verbatim>\<open>None\<close> when the token is not set.
\<close>

definition tokenizer_pad_token_id :: "tokenizer \<Rightarrow> int option" where
  "tokenizer_pad_token_id t =
     (case pad_token t of None \<Rightarrow> None | Some s \<Rightarrow> convert_tokens_to_ids t s)"

definition tokenizer_eos_token_id :: "tokenizer \<Rightarrow> int option" where
  "tokenizer_eos_token_id t =
     (case eos_token t of None \<Rightarrow> None | Some s \<Rightarrow> convert_tokens_to_ids t s)"

text \<open>
  \<^verbatim>\<open>pd.DataFrame(rows)\<close> wraps the rows of a split. A dataset object is the class that
  was instantiated and the keyword arguments given to its constructor.
\<close>

datatype 'rows dataframe = DataFrame 'rows

record 'rows dataset_kwargs =
  df :: "'rows dataframe"
  features_path :: string
  tokenizer :: tokenizer
  rag :: bool
  template_path :: string
  k :: int
  max_caption_length :: int

datatype 'rows dataset =
    TrainDataset "'rows dataset_kwargs"
  | AblationFeaturesDataset "'rows dataset_kwargs"

record Seq2SeqTrainingArguments =
  num_train_epochs :: int
  per_device_train_batch_size :: int
  gradient_accumulation_steps :: int
  learning_rate :: number
  fp16 :: bool
  save_strategy :: string
  save_total_limit :: int
  logging_strategy :: string
  output_dir :: string
  overwrite_output_dir :: bool

datatype collator = default_data_collator

record ('fe, 'rows) Seq2SeqTrainer =
  model :: model
  args :: Seq2SeqTrainingArguments
  data_collator :: collator
  train_dataset :: "'rows dataset"
  tokenizer :: 'fe

section \<open>Effects\<close>

text \<open>
  Every call that acts outside train.py (a registration with the Auto classes, a
  pretrained load, a print, reading the annotations, the training run) is an event. A
  function returns the events it caused, in order, beside its result or its exception.
\<close>

datatype config_class = ThisXGLMConfig | ThisOPTConfig | ThisGPT2Config | SmallCapConfig

datatype model_class = ThisXGLMForCausalLM | ThisOPTForCausalLM | ThisGPT2LMHeadModel | SmallCap

datatype ('fe, 'rows) event =
    AutoConfig_register string config_class
  | AutoModel_register config_class model_class
  | AutoModelForCausalLM_register config_class model_class
  | Call_CLIPFeatureExtractor_from_pretrained string
  | Call_AutoTokenizer_from_pretrained string
  | Call_SmallCap_from_encoder_decoder_pretrained string string int
  | Print string
  | Call_load_data_for_training string string
  | Call_train "('fe, 'rows) Seq2SeqTrainer"

text \<open>
  What such a call returns is not decided by train.py: it is a parameter, a function of
  the call's arguments and of the events so far (a load depends on the classes
  registered before it), and it may raise.

  A constructor of the framework (\<^verbatim>\<open>pd.DataFrame\<close>, the two dataset classes,
  \<^verbatim>\<open>Seq2SeqTrainingArguments\<close>, \<^verbatim>\<open>Seq2SeqTrainer\<close>) is no event, but it may raise as
  well: the training arguments refuse \<^verbatim>\<open>fp16=True\<close> on a host without a suitable
  device, a dataset opens its features file. The object it builds is modelled by the
  arguments given; whether it raises instead is a parameter, \<open>Inr ()\<close> when it does not.

  \<open>str_number\<close> is Python's rendering of a number by \<^verbatim>\<open>'{}'.format\<close>.
  \<open>str_num_trainable_params\<close> is the rendering of
  \<^verbatim>\<open>sum([np.prod(s) for s in shapes])\<close>, numpy's arithmetic on the shapes included.
\<close>

record ('fe, 'rows) env =
  CLIPFeatureExtractor_from_pretrained ::
    "('fe, 'rows) event list \<Rightarrow> string \<Rightarrow> error + 'fe"
  AutoTokenizer_from_pretrained ::
    "('fe, 'rows) event list \<Rightarrow> string \<Rightarrow> error + tokenizer"
  SmallCap_from_encoder_decoder_pretrained ::
    "('fe, 'rows) event list \<Rightarrow> string \<Rightarrow> string \<Rightarrow> int \<Rightarrow> error + model"
  load_data_for_training ::
    "('fe, 'rows) event list \<Rightarrow> string \<Rightarrow> string \<Rightarrow> error + (string \<rightharpoonup> 'rows)"
  train ::
    "('fe, 'rows) event list \<Rightarrow> ('fe, 'rows) Seq2SeqTrainer \<Rightarrow> error + unit"
  DataFrame_init ::
    "('fe, 'rows) event list \<Rightarrow> 'rows \<Rightarrow> error + unit"
  Dataset_init ::
    "('fe, 'rows) event list \<Rightarrow> 'rows dataset \<Rightarrow> error + unit"
  Seq2SeqTrainingArguments_init ::
    "('fe, 'rows) event list \<Rightarrow> Seq2SeqTrainingArguments \<Rightarrow> error + unit"
  Seq2SeqTrainer_init ::
    "('fe, 'rows) event list \<Rightarrow> ('fe, 'rows) Seq2SeqTrainer \<Rightarrow> error + unit"
  str_number :: "number \<Rightarrow> string"
  str_num_trainable_params :: "nat list list \<Rightarrow> string"

section \<open>get_model_and_auxiliaries (lines 24-79)\<close>

text \<open>
  Lines 25-39: the classes registered with the Auto classes, the decoder's chosen by the
  decoder's name. A registration of these names is not refused by the framework.
\<close>

definition register_classes :: "string \<Rightarrow> ('fe, 'rows) event list" where
  "register_classes name =
     (if sublist ''xglm'' name then
        [AutoConfig_register ''this_xglm'' ThisXGLMConfig,
         AutoModel_register ThisXGLMConfig ThisXGLMForCausalLM,
         AutoModelForCausalLM_register ThisXGLMConfig ThisXGLMForCausalLM]
      else if sublist ''opt'' name then
        [AutoConfig_register ''this_opt'' ThisOPTConfig,
         AutoModel_register ThisOPTConfig ThisOPTForCausalLM,
         AutoModelForCausalLM_register ThisOPTConfig ThisOPTForCausalLM]
      else
        [AutoConfig_register ''this_gpt2'' ThisGPT2Config,
         AutoModel_register ThisGPT2Config ThisGPT2LMHeadModel,
         AutoModelForCausalLM_register ThisGPT2Config ThisGPT2LMHeadModel])
     @ [AutoConfig_register ''smallcap'' SmallCapConfig,
        AutoModel_register SmallCapConfig SmallCap]"

text \<open>Lines 61-62: the loop over the encoder's parameters.\<close>

fun freeze_all :: "param list \<Rightarrow> param list" where
  "freeze_all [] = []"
| "freeze_all (p # ps) = p\<lparr>requires_grad := False\<rparr> # freeze_all ps"

text \<open>
  Lines 66-68 and 71-73: the loop over the decoder's named parameters, which freezes a
  parameter when the marker is not in its name.
\<close>

fun freeze_unless :: "string \<Rightarrow> (string \<times> param) list \<Rightarrow> (string \<times> param) list" where
  "freeze_unless marker [] = []"
| "freeze_unless marker ((name, p) # nps) =
     (if \<not> sublist marker name then (name, p\<lparr>requires_grad := False\<rparr>) else (name, p))
       # freeze_unless marker nps"

text \<open>Lines 61-73.\<close>

definition freeze :: "args \<Rightarrow> model \<Rightarrow> model" where
  "freeze a m =
     (let m1 = m\<lparr>model.encoder := freeze_all (model.encoder m)\<rparr> in
      if sublist ''xglm'' (decoder_name a) \<or> sublist ''opt'' (decoder_name a) then
        (if \<not> train_decoder a
         then m1\<lparr>model.decoder := freeze_unless ''encoder_attn'' (model.decoder m1)\<rparr>
         else m1)
      else
        (if \<not> train_decoder a
         then m1\<lparr>model.decoder := freeze_unless ''crossattention'' (model.decoder m1)\<rparr>
         else m1))"

text \<open>Lines 50-59: the assignments to \<^verbatim>\<open>model.config\<close>, in the order of the source.\<close>

definition configure :: "args \<Rightarrow> tokenizer \<Rightarrow> config \<Rightarrow> config" where
  "configure a t c0 =
     (let c1 = c0\<lparr>config.vocab_size := decoder_config.vocab_size (config.decoder c0)\<rparr>;
          c2 = c1\<lparr>decoder_start_token_id := None\<rparr>;
          c3 = c2\<lparr>pad_token_id := tokenizer_pad_token_id t\<rparr>;
          c4 = c3\<lparr>eos_token_id := tokenizer_eos_token_id t\<rparr>;
          c5 = (if \<not> disable_rag a
                then c4\<lparr>config.k := Some (args.k a),
                        config.retrieval_encoder := Some (args.retrieval_encoder a)\<rparr>
                else c4);
          c6 = c5\<lparr>max_length := CAPTION_LENGTH\<rparr>
      in c6\<lparr>config.rag := \<not> disable_rag a\<rparr>)"

text \<open>
  Lines 75-77: the shapes of the parameters that still require a gradient, and the
  message printed about them.
\<close>

definition trainable_shapes :: "model \<Rightarrow> nat list list" where
  "trainable_shapes m = map size_p (filter requires_grad (parameters m))"

definition trainable_message :: "('fe, 'rows) env \<Rightarrow> model \<Rightarrow> string" where
  "trainable_message env m =
     ''Training a model with '' @ str_num_trainable_params env (trainable_shapes m)
       @ '' trainable parameters.''"

definition get_model_and_auxiliaries ::
  "('fe, 'rows) env \<Rightarrow> args \<Rightarrow> ('fe, 'rows) event list \<Rightarrow>
   ('fe, 'rows) event list \<times> (error + model \<times> tokenizer \<times> 'fe)" where
  "get_model_and_auxiliaries env a h =
     (let ev0 = register_classes (decoder_name a) in
      case getitem PARAMS2REDUCE_FACTOR (attention_size a) of
        Inl e \<Rightarrow> (ev0, Inl e)
      | Inr cross_attention_reduce_factor \<Rightarrow>
      let ev1 = ev0 @ [Call_CLIPFeatureExtractor_from_pretrained (encoder_name a)] in
      case CLIPFeatureExtractor_from_pretrained env (h @ ev0) (encoder_name a) of
        Inl e \<Rightarrow> (ev1, Inl e)
      | Inr feature_extractor \<Rightarrow>
      let ev2 = ev1 @ [Call_AutoTokenizer_from_pretrained (decoder_name a)] in
      case AutoTokenizer_from_pretrained env (h @ ev1) (decoder_name a) of
        Inl e \<Rightarrow> (ev2, Inl e)
      | Inr tokenizer0 \<Rightarrow>
      let tokenizer1 = tokenizer0\<lparr>pad_token := Some PAD_TOKEN\<rparr>;
          tokenizer2 = tokenizer1\<lparr>eos_token := Some EOS_TOKEN\<rparr>;
          ev3 = ev2 @ [Call_SmallCap_from_encoder_decoder_pretrained
                         (encoder_name a) (decoder_name a) cross_attention_reduce_factor]
      in
      case SmallCap_from_encoder_decoder_pretrained env (h @ ev2)
             (encoder_name a) (decoder_name a) cross_attention_reduce_factor of
        Inl e \<Rightarrow> (ev3, Inl e)
      | Inr model0 \<Rightarrow>
      let model1 = model0\<lparr>model.config := configure a tokenizer2 (model.config model0)\<rparr>;
          model2 = freeze a model1
      in (ev3 @ [Print (trainable_message env model2)],
          Inr (model2, tokenizer2, feature_extractor)))"

section \<open>get_data (lines 81-104)\<close>

definition get_data ::
  "('fe, 'rows) env \<Rightarrow> tokenizer \<Rightarrow> int \<Rightarrow> args \<Rightarrow> ('fe, 'rows) event list \<Rightarrow>
   ('fe, 'rows) event list \<times> (error + 'rows dataset)" where
  "get_data env tok max_len a h =
     (let ev = [Call_load_data_for_training (annotations_path a) (captions_path a)] in
      case load_data_for_training env h (annotations_path a) (captions_path a) of
        Inl e \<Rightarrow> (ev, Inl e)
      | Inr data \<Rightarrow>
      (case data ''train'' of
        None \<Rightarrow> (ev, Inl KeyError)
      | Some rows \<Rightarrow>
      (case DataFrame_init env (h @ ev) rows of
        Inl e \<Rightarrow> (ev, Inl e)
      | Inr u \<Rightarrow>
      let train_df = DataFrame rows;
          train_dataset =
            (if ablation_visual a then
               AblationFeaturesDataset
                 \<lparr> df = train_df,
                   features_path = path_join (features_dir a) ''train.hdf5'',
                   tokenizer = tok,
                   rag = \<not> disable_rag a,
                   template_path = args.template_path a,
                   k = args.k a,
                   max_caption_length = max_len \<rparr>
             else
               TrainDataset
                 \<lparr> df = train_df,
                   features_path = path_join (features_dir a) ''train.hdf5'',
                   tokenizer = tok,
                   rag = \<not> disable_rag a,
                   template_path = args.template_path a,
                   k = args.k a,
                   max_caption_length = max_len \<rparr>)
      in
      case Dataset_init env (h @ ev) train_dataset of
        Inl e \<Rightarrow> (ev, Inl e)
      | Inr u \<Rightarrow> (ev, Inr train_dataset))))"

section \<open>main (lines 106-139)\<close>

text \<open>Lines 110-116.\<close>

definition main_output_dir :: "('fe, 'rows) env \<Rightarrow> args \<Rightarrow> string" where
  "main_output_dir env a =
     (let model_type = (if disable_rag a then ''norag'' else ''rag'');
          output_dir =
            (if ablation_visual a
             then model_type @ ''_'' @ str_number env (attention_size a) @ ''M_''
                    @ decoder_name a @ ''_ablation''
             else model_type @ ''_'' @ str_number env (attention_size a) @ ''M_''
                    @ decoder_name a)
      in path_join ''/kaggle/working/'' output_dir)"

text \<open>Lines 118-129.\<close>

definition main_training_args :: "('fe, 'rows) env \<Rightarrow> args \<Rightarrow> Seq2SeqTrainingArguments" where
  "main_training_args env a =
     \<lparr> num_train_epochs = n_epochs a,
       per_device_train_batch_size = batch_size a,
       gradient_accumulation_steps = gradient_steps a,
       learning_rate = lr a,
       fp16 = True,
       save_strategy = ''epoch'',
       save_total_limit = n_epochs a,
       logging_strategy = ''epoch'',
       output_dir = main_output_dir env a,
       overwrite_output_dir = True \<rparr>"

definition main ::
  "('fe, 'rows) env \<Rightarrow> args \<Rightarrow> ('fe, 'rows) event list \<Rightarrow>
   ('fe, 'rows) event list \<times> (error + unit)" where
  "main env a h =
     (case get_model_and_auxiliaries env a h of
        (ev1, Inl e) \<Rightarrow> (ev1, Inl e)
      | (ev1, Inr (mdl, tok, feature_extractor)) \<Rightarrow>
      (case get_data env tok (max_length (model.config mdl)) a (h @ ev1) of
        (ev2, Inl e) \<Rightarrow> (ev1 @ ev2, Inl e)
      | (ev2, Inr dataset) \<Rightarrow>
      let training_args = main_training_args env a in
      case Seq2SeqTrainingArguments_init env (h @ ev1 @ ev2) training_args of
        Inl e \<Rightarrow> (ev1 @ ev2, Inl e)
      | Inr u \<Rightarrow>
      let trainer =
            \<lparr> model = mdl,
              args = training_args,
              data_collator = default_data_collator,
              train_dataset = dataset,
              tokenizer = feature_extractor \<rparr>
      in
      case Seq2SeqTrainer_init env (h @ ev1 @ ev2) trainer of
        Inl e \<Rightarrow> (ev1 @ ev2, Inl e)
      | Inr u \<Rightarrow>
          (ev1 @ ev2 @ [Call_train trainer], train env (h @ ev1 @ ev2) trainer)))"

section \<open>A concrete environment\<close>

text \<open>
  A small world to run the functions in: a model with two encoder tensors and four
  decoder tensors, a tokenizer whose vocabulary knows the two special tokens, and
  annotations with a training split. A feature extractor is the name it was loaded from.
  No constructor raises. Every load returns the same model, so the shapes left trainable
  are one of three lists, with 8, 4 and 32 elements; a number is rendered only after
  the table held it, so the renderings of the table's keys are all that can be asked.
\<close>

definition example_model :: model where
  "example_model =
     \<lparr> config =
         \<lparr> config.vocab_size = 0,
           decoder = \<lparr> decoder_config.vocab_size = 50257 \<rparr>,
           decoder_start_token_id = Some 50256,
           pad_token_id = None,
           eos_token_id = Some 50256,
           config.k = None,
           config.retrieval_encoder = None,
           max_length = 20,
           config.rag = False \<rparr>,
       encoder =
         [\<lparr> requires_grad = True, size_p = [4, 3] \<rparr>,
          \<lparr> requires_grad = True, size_p = [4] \<rparr>],
       decoder =
         [(''transformer.wte.weight'', \<lparr> requires_grad = True, size_p = [5, 4] \<rparr>),
          (''transformer.h.0.crossattention.c_attn.weight'',
             \<lparr> requires_grad = True, size_p = [4, 2] \<rparr>),
          (''model.layers.0.encoder_attn.q_proj.weight'',
             \<lparr> requires_grad = True, size_p = [2, 2] \<rparr>),
          (''transformer.ln_f.bias'', \<lparr> requires_grad = False, size_p = [4] \<rparr>)] \<rparr>"

definition example_tokenizer :: tokenizer where
  "example_tokenizer =
     \<lparr> pad_token = None,
       eos_token = Some ''<eos>'',
       convert_tokens_to_ids =
         (\<lambda>s. if s = ''!'' then Some 0 else if s = ''.'' then Some 13 else Some 50256) \<rparr>"

definition example_env :: "(string, nat list) env" where
  "example_env =
     \<lparr> CLIPFeatureExtractor_from_pretrained = (\<lambda>h name. Inr name),
       AutoTokenizer_from_pretrained = (\<lambda>h name. Inr example_tokenizer),
       SmallCap_from_encoder_decoder_pretrained = (\<lambda>h enc dec f. Inr example_model),
       load_data_for_training = (\<lambda>h ann cap. Inr [''train'' \<mapsto> [0, 1, 2], ''val'' \<mapsto> [3]]),
       train = (\<lambda>h trainer. Inr ()),
       DataFrame_init = (\<lambda>h rows. Inr ()),
       Dataset_init = (\<lambda>h dataset. Inr ()),
       Seq2SeqTrainingArguments_init = (\<lambda>h training_args. Inr ()),
       Seq2SeqTrainer_init = (\<lambda>h trainer. Inr ()),
       str_number =
         (\<lambda>n. if n = PyInt 28 then ''28''
              else if n = PyInt 14 then ''14''
              else if n = PyInt 7 then ''7''
              else if n = PyFloat 28 then ''28.0''
              else if n = PyFloat 14 then ''14.0''
              else if n = PyFloat 7 then ''7.0''
              else if n = PyFloat (7 / 2) then ''3.5''
              else if n = PyFloat (7 / 4) then ''1.75''
              else []),
       str_num_trainable_params =
         (\<lambda>shapes. if shapes = [[4, 2]] then ''8''
                   else if shapes = [[2, 2]] then ''4''
                   else if shapes = [[5, 4], [4, 2], [2, 2]] then ''32''
                   else []) \<rparr>"

section \<open>Facts about the loops and the run of get_model_and_auxiliaries\<close>

lemma freeze_all_frozen: "p \<in> set (freeze_all ps) \<Longrightarrow> \<not> requires_grad p"
  by (induction ps) auto

lemma freeze_encoder: "model.encoder (freeze a m) = freeze_all (model.encoder m)"
  by (simp add: freeze_def Let_def)

lemma freeze_config: "model.config (freeze a m) = model.config m"
  by (simp add: freeze_def Let_def)

text \<open>
  When the function returns, the table held the attention size, the three loads
  succeeded in the histories shown, and the result and the events are built from what
  they returned.
\<close>

lemma get_model_and_auxiliaries_returns:
  assumes "get_model_and_auxiliaries env a h = (evs, Inr (m, t, fe))"
  obtains f tok0 m0 where
    "getitem PARAMS2REDUCE_FACTOR (attention_size a) = Inr f"
    "CLIPFeatureExtractor_from_pretrained env
       (h @ register_classes (decoder_name a)) (encoder_name a) = Inr fe"
    "AutoTokenizer_from_pretrained env
       (h @ register_classes (decoder_name a)
          @ [Call_CLIPFeatureExtractor_from_pretrained (encoder_name a)])
       (decoder_name a) = Inr tok0"
    "t = tok0\<lparr>pad_token := Some PAD_TOKEN, eos_token := Some EOS_TOKEN\<rparr>"
    "SmallCap_from_encoder_decoder_pretrained env
       (h @ register_classes (decoder_name a)
          @ [Call_CLIPFeatureExtractor_from_pretrained (encoder_name a),
             Call_AutoTokenizer_from_pretrained (decoder_name a)])
       (encoder_name a) (decoder_name a) f = Inr m0"
    "m = freeze a (m0\<lparr>model.config := configure a t (model.config m0)\<rparr>)"
    "evs = register_classes (decoder_name a)
          @ [Call_CLIPFeatureExtractor_from_pretrained (encoder_name a),
             Call_AutoTokenizer_from_pretrained (decoder_name a),
             Call_SmallCap_from_encoder_decoder_pretrained
               (encoder_name a) (decoder_name a) f,
             Print (trainable_message env m)]"
  using assms
  by (auto simp: get_model_and_auxiliaries_def Let_def split: sum.splits)

text \<open>The unfoldings that evaluate a run in the concrete environment.\<close>

lemmas example_simps =
  get_model_and_auxiliaries_def example_env_def default_args_def Let_def
  PARAMS2REDUCE_FACTOR_def register_classes_def sublist_code prefix_code
  example_model_def example_tokenizer_def configure_def freeze_def
  PAD_TOKEN_def EOS_TOKEN_def CAPTION_LENGTH_def
  tokenizer_pad_token_id_def tokenizer_eos_token_id_def

section \<open>The encoder is frozen\<close>

text \<open>
  Claim C1. After \<^verbatim>\<open>get_model_and_auxiliaries(args)\<close> returns, every parameter of
  \<^verbatim>\<open>model.encoder\<close> has \<^verbatim>\<open>requires_grad\<close> False, whatever the arguments, the
  environment and the history.
\<close>

theorem encoder_frozen:
  assumes "get_model_and_auxiliaries env a h = (evs, Inr (m, t, fe))"
  shows "\<forall>p \<in> set (model.encoder m). \<not> requires_grad p"
  using assms
  by (elim get_model_and_auxiliaries_returns) (simp add: freeze_encoder freeze_all_frozen)

text \<open>
  With the default arguments in the concrete environment the function returns, and the
  two encoder tensors, loaded trainable, come back frozen.
\<close>

theorem encoder_frozen_witness:
  "\<exists>evs m t fe.
      get_model_and_auxiliaries example_env default_args [] = (evs, Inr (m, t, fe))
      \<and> length (model.encoder m) = 2
      \<and> list_all (\<lambda>p. \<not> requires_grad p) (model.encoder m)"
proof -
  obtain evs m t fe where
    run: "get_model_and_auxiliaries example_env default_args [] = (evs, Inr (m, t, fe))"
    and len: "length (model.encoder m) = 2"
    by (simp add: example_simps)
  from encoder_frozen [OF run]
  have "list_all (\<lambda>p. \<not> requires_grad p) (model.encoder m)"
    by (simp add: list_all_iff)
  with run len show ?thesis by blast
qed

section \<open>The decoder is frozen except for its cross-attention\<close>

lemma freeze_unless_length: "length (freeze_unless mk nps) = length nps"
  by (induction mk nps rule: freeze_unless.induct) auto

lemma freeze_unless_nth:
  "i < length nps \<Longrightarrow>
   freeze_unless mk nps ! i =
     (if sublist mk (fst (nps ! i)) then nps ! i
      else (fst (nps ! i), (snd (nps ! i))\<lparr>requires_grad := False\<rparr>))"
proof (induction mk nps arbitrary: i rule: freeze_unless.induct)
  case (1 marker)
  then show ?case by simp
next
  case (2 marker name p nps)
  then show ?case by (cases i) auto
qed

lemma freeze_decoder:
  "model.decoder (freeze a m) =
     (if train_decoder a then model.decoder m
      else freeze_unless
             (if sublist ''xglm'' (decoder_name a) \<or> sublist ''opt'' (decoder_name a)
              then ''encoder_attn'' else ''crossattention'')
             (model.decoder m))"
  by (simp add: freeze_def Let_def)

text \<open>
  Claim C2. Let the marker be \<^verbatim>\<open>encoder_attn\<close> when the decoder's name contains
  \<^verbatim>\<open>xglm\<close> or \<^verbatim>\<open>opt\<close>, and \<^verbatim>\<open>crossattention\<close> otherwise. When the function returns,
  its events end with the load of the model and the print, and against the model \<open>m0\<close>
  which that load returned: with \<^verbatim>\<open>train_decoder\<close> the decoder's named parameters are
  untouched; without it they keep their names and order, a parameter whose name does not
  contain the marker has \<^verbatim>\<open>requires_grad\<close> False and is otherwise unchanged, and a
  parameter whose name contains the marker is unchanged.
\<close>

theorem decoder_freezing:
  fixes a :: args
  defines "marker \<equiv>
     (if sublist ''xglm'' (decoder_name a) \<or> sublist ''opt'' (decoder_name a)
      then ''encoder_attn'' else ''crossattention'')"
  assumes "get_model_and_auxiliaries env a h = (evs, Inr (m, t, fe))"
  shows "\<exists>pre f msg m0.
      evs = pre @ [Call_SmallCap_from_encoder_decoder_pretrained
                     (encoder_name a) (decoder_name a) f, Print msg]
    \<and> SmallCap_from_encoder_decoder_pretrained env (h @ pre)
        (encoder_name a) (decoder_name a) f = Inr m0
    \<and> length (model.decoder m) = length (model.decoder m0)
    \<and> (train_decoder a \<longrightarrow> model.decoder m = model.decoder m0)
    \<and> (\<not> train_decoder a \<longrightarrow>
         (\<forall>i < length (model.decoder m0).
            fst (model.decoder m ! i) = fst (model.decoder m0 ! i) \<and>
            snd (model.decoder m ! i) =
              (if sublist marker (fst (model.decoder m0 ! i))
               then snd (model.decoder m0 ! i)
               else (snd (model.decoder m0 ! i))\<lparr>requires_grad := False\<rparr>)))"
proof -
  from assms(2) obtain f tok0 m0 where
    load: "SmallCap_from_encoder_decoder_pretrained env
       (h @ register_classes (decoder_name a)
          @ [Call_CLIPFeatureExtractor_from_pretrained (encoder_name a),
             Call_AutoTokenizer_from_pretrained (decoder_name a)])
       (encoder_name a) (decoder_name a) f = Inr m0"
    and m: "m = freeze a (m0\<lparr>model.config := configure a t (model.config m0)\<rparr>)"
    and evs: "evs = register_classes (decoder_name a)
          @ [Call_CLIPFeatureExtractor_from_pretrained (encoder_name a),
             Call_AutoTokenizer_from_pretrained (decoder_name a),
             Call_SmallCap_from_encoder_decoder_pretrained
               (encoder_name a) (decoder_name a) f,
             Print (trainable_message env m)]"
    by (rule get_model_and_auxiliaries_returns)
  let ?pre = "register_classes (decoder_name a)
          @ [Call_CLIPFeatureExtractor_from_pretrained (encoder_name a),
             Call_AutoTokenizer_from_pretrained (decoder_name a)]"
  have 1: "evs = ?pre @ [Call_SmallCap_from_encoder_decoder_pretrained
                     (encoder_name a) (decoder_name a) f, Print (trainable_message env m)]"
    using evs by simp
  have 2: "SmallCap_from_encoder_decoder_pretrained env (h @ ?pre)
        (encoder_name a) (decoder_name a) f = Inr m0"
    using load by simp
  have dec: "model.decoder m =
     (if train_decoder a then model.decoder m0 else freeze_unless marker (model.decoder m0))"
    unfolding m marker_def by (simp add: freeze_decoder)
  have 3: "length (model.decoder m) = length (model.decoder m0)"
    by (simp add: dec freeze_unless_length)
  have 4: "train_decoder a \<longrightarrow> model.decoder m = model.decoder m0"
    by (simp add: dec)
  have 5: "\<not> train_decoder a \<longrightarrow>
         (\<forall>i < length (model.decoder m0).
            fst (model.decoder m ! i) = fst (model.decoder m0 ! i) \<and>
            snd (model.decoder m ! i) =
              (if sublist marker (fst (model.decoder m0 ! i))
               then snd (model.decoder m0 ! i)
               else (snd (model.decoder m0 ! i))\<lparr>requires_grad := False\<rparr>))"
    by (simp add: dec freeze_unless_nth)
  from 1 2 3 4 5 show ?thesis by blast
qed

text \<open>
  The default arguments (decoder \<^verbatim>\<open>gpt2\<close>, marker \<^verbatim>\<open>crossattention\<close>): the embedding and the
  \<^verbatim>\<open>encoder_attn\<close> tensor are frozen, the \<^verbatim>\<open>crossattention\<close> tensor is as loaded. With
  \<^verbatim>\<open>--train_decoder\<close> on an OPT decoder nothing in the decoder changes.
\<close>

theorem decoder_freezing_witness:
  "(\<exists>evs m t fe.
      get_model_and_auxiliaries example_env default_args [] = (evs, Inr (m, t, fe))
      \<and> length (model.decoder m) = 4
      \<and> snd (model.decoder m ! 0) = \<lparr>requires_grad = False, size_p = [5, 4]\<rparr>
      \<and> model.decoder m ! 1 = model.decoder example_model ! 1
      \<and> requires_grad (snd (model.decoder m ! 1))
      \<and> snd (model.decoder m ! 2) = \<lparr>requires_grad = False, size_p = [2, 2]\<rparr>)
   \<and> (\<exists>evs m t fe.
      get_model_and_auxiliaries example_env
        (default_args\<lparr>decoder_name := ''facebook/opt-350m'', train_decoder := True\<rparr>) []
        = (evs, Inr (m, t, fe))
      \<and> model.decoder m = model.decoder example_model)"
proof -
  obtain evs m t fe where
    run: "get_model_and_auxiliaries example_env default_args [] = (evs, Inr (m, t, fe))"
    by (simp add: example_simps)
  from decoder_freezing [OF run] obtain pre f msg m0 where
    load: "SmallCap_from_encoder_decoder_pretrained example_env ([] @ pre)
        (encoder_name default_args) (decoder_name default_args) f = Inr m0"
    and len: "length (model.decoder m) = length (model.decoder m0)"
    and nth: "\<not> train_decoder default_args \<longrightarrow>
         (\<forall>i < length (model.decoder m0).
            fst (model.decoder m ! i) = fst (model.decoder m0 ! i) \<and>
            snd (model.decoder m ! i) =
              (if sublist
                   (if sublist ''xglm'' (decoder_name default_args)
                       \<or> sublist ''opt'' (decoder_name default_args)
                    then ''encoder_attn'' else ''crossattention'')
                   (fst (model.decoder m0 ! i))
               then snd (model.decoder m0 ! i)
               else (snd (model.decoder m0 ! i))\<lparr>requires_grad := False\<rparr>))"
    by blast
  from load have m0: "m0 = example_model"
    by (simp add: example_env_def)
  have l4: "length (model.decoder m) = 4"
    using len by (simp add: m0 example_model_def)
  from nth have
    n0: "snd (model.decoder m ! 0) = \<lparr>requires_grad = False, size_p = [5, 4]\<rparr>" and
    n1: "model.decoder m ! 1 = model.decoder example_model ! 1" and
    n2: "snd (model.decoder m ! 2) = \<lparr>requires_grad = False, size_p = [2, 2]\<rparr>"
    by (simp_all add: m0 example_model_def default_args_def sublist_code prefix_code
          prod_eq_iff)
  have g1: "requires_grad (snd (model.decoder m ! 1))"
    using n1 by (simp add: example_model_def)
  obtain evs' m' t' fe' where
    run': "get_model_and_auxiliaries example_env
        (default_args\<lparr>decoder_name := ''facebook/opt-350m'', train_decoder := True\<rparr>) []
        = (evs', Inr (m', t', fe'))"
    by (simp add: example_simps)
  from decoder_freezing [OF run'] obtain pre' f' msg' m0' where
    load': "SmallCap_from_encoder_decoder_pretrained example_env ([] @ pre')
        (encoder_name (default_args\<lparr>decoder_name := ''facebook/opt-350m'',
           train_decoder := True\<rparr>))
        (decoder_name (default_args\<lparr>decoder_name := ''facebook/opt-350m'',
           train_decoder := True\<rparr>)) f' = Inr m0'"
    and same: "train_decoder (default_args\<lparr>decoder_name := ''facebook/opt-350m'',
           train_decoder := True\<rparr>) \<longrightarrow> model.decoder m' = model.decoder m0'"
    by blast
  from load' have "m0' = example_model"
    by (simp add: example_env_def)
  with same have d': "model.decoder m' = model.decoder example_model"
    by simp
  from run l4 n0 n1 g1 n2 run' d' show ?thesis by blast
qed

section \<open>The configuration written by get_model_and_auxiliaries\<close>

text \<open>
  The events of a run that returns end with the load of the model and the print; the
  model returned is the loaded one after the assignments to its configuration and the
  freezing loops.
\<close>

lemma get_model_and_auxiliaries_loaded:
  assumes "get_model_and_auxiliaries env a h = (evs, Inr (m, t, fe))"
  obtains pre f msg m0 where
    "evs = pre @ [Call_SmallCap_from_encoder_decoder_pretrained
                    (encoder_name a) (decoder_name a) f, Print msg]"
    "SmallCap_from_encoder_decoder_pretrained env (h @ pre)
       (encoder_name a) (decoder_name a) f = Inr m0"
    "m = freeze a (m0\<lparr>model.config := configure a t (model.config m0)\<rparr>)"
proof -
  from assms obtain f tok0 m0 where
    load: "SmallCap_from_encoder_decoder_pretrained env
       (h @ register_classes (decoder_name a)
          @ [Call_CLIPFeatureExtractor_from_pretrained (encoder_name a),
             Call_AutoTokenizer_from_pretrained (decoder_name a)])
       (encoder_name a) (decoder_name a) f = Inr m0"
    and m: "m = freeze a (m0\<lparr>model.config := configure a t (model.config m0)\<rparr>)"
    and evs: "evs = register_classes (decoder_name a)
          @ [Call_CLIPFeatureExtractor_from_pretrained (encoder_name a),
             Call_AutoTokenizer_from_pretrained (decoder_name a),
             Call_SmallCap_from_encoder_decoder_pretrained
               (encoder_name a) (decoder_name a) f,
             Print (trainable_message env m)]"
    by (rule get_model_and_auxiliaries_returns)
  let ?pre = "register_classes (decoder_name a)
          @ [Call_CLIPFeatureExtractor_from_pretrained (encoder_name a),
             Call_AutoTokenizer_from_pretrained (decoder_name a)]"
  have "evs = ?pre @ [Call_SmallCap_from_encoder_decoder_pretrained
                     (encoder_name a) (decoder_name a) f, Print (trainable_message env m)]"
    using evs by simp
  moreover have "SmallCap_from_encoder_decoder_pretrained env (h @ ?pre)
        (encoder_name a) (decoder_name a) f = Inr m0"
    using load by simp
  ultimately show thesis using m by (rule that)
qed

lemma configure_rag:
  "config.rag (configure a t c) = (\<not> disable_rag a)"
  "config.k (configure a t c) = (if disable_rag a then config.k c else Some (args.k a))"
  "config.retrieval_encoder (configure a t c) =
     (if disable_rag a then config.retrieval_encoder c else Some (args.retrieval_encoder a))"
  by (simp_all add: configure_def Let_def)

lemma configure_tokens:
  "config.vocab_size (configure a t c) = decoder_config.vocab_size (config.decoder c)"
  "config.decoder (configure a t c) = config.decoder c"
  "decoder_start_token_id (configure a t c) = None"
  "pad_token_id (configure a t c) = tokenizer_pad_token_id t"
  "eos_token_id (configure a t c) = tokenizer_eos_token_id t"
  "max_length (configure a t c) = CAPTION_LENGTH"
  by (simp_all add: configure_def Let_def)

text \<open>
  Claim C4. When the function returns, \<^verbatim>\<open>model.config.rag\<close> is \<^verbatim>\<open>not args.disable_rag\<close>.
  Without \<^verbatim>\<open>--disable_rag\<close>, \<^verbatim>\<open>model.config.k\<close> is \<^verbatim>\<open>args.k\<close> and
  \<^verbatim>\<open>model.config.retrieval_encoder\<close> is \<^verbatim>\<open>args.retrieval_encoder\<close>; with it, both fields
  are what they were in the model \<open>m0\<close> as loaded.
\<close>

theorem rag_configuration:
  assumes "get_model_and_auxiliaries env a h = (evs, Inr (m, t, fe))"
  shows "\<exists>pre f msg m0.
      evs = pre @ [Call_SmallCap_from_encoder_decoder_pretrained
                     (encoder_name a) (decoder_name a) f, Print msg]
    \<and> SmallCap_from_encoder_decoder_pretrained env (h @ pre)
        (encoder_name a) (decoder_name a) f = Inr m0
    \<and> config.rag (model.config m) = (\<not> disable_rag a)
    \<and> (\<not> disable_rag a \<longrightarrow>
          config.k (model.config m) = Some (args.k a)
        \<and> config.retrieval_encoder (model.config m) = Some (args.retrieval_encoder a))
    \<and> (disable_rag a \<longrightarrow>
          config.k (model.config m) = config.k (model.config m0)
        \<and> config.retrieval_encoder (model.config m)
            = config.retrieval_encoder (model.config m0))"
proof -
  from assms obtain pre f msg m0 where
    evs: "evs = pre @ [Call_SmallCap_from_encoder_decoder_pretrained
                    (encoder_name a) (decoder_name a) f, Print msg]"
    and load: "SmallCap_from_encoder_decoder_pretrained env (h @ pre)
       (encoder_name a) (decoder_name a) f = Inr m0"
    and m: "m = freeze a (m0\<lparr>model.config := configure a t (model.config m0)\<rparr>)"
    by (rule get_model_and_auxiliaries_loaded)
  have c: "model.config m = configure a t (model.config m0)"
    by (simp add: m freeze_config)
  have "config.rag (model.config m) = (\<not> disable_rag a)"
    by (simp add: c configure_rag)
  moreover have "\<not> disable_rag a \<longrightarrow>
          config.k (model.config m) = Some (args.k a)
        \<and> config.retrieval_encoder (model.config m) = Some (args.retrieval_encoder a)"
    by (simp add: c configure_rag)
  moreover have "disable_rag a \<longrightarrow>
          config.k (model.config m) = config.k (model.config m0)
        \<and> config.retrieval_encoder (model.config m)
            = config.retrieval_encoder (model.config m0)"
    by (simp add: c configure_rag)
  ultimately show ?thesis using evs load by blast
qed

text \<open>
  The default arguments give \<^verbatim>\<open>rag\<close> True, \<^verbatim>\<open>k\<close> 4 and the encoder \<^verbatim>\<open>RN50x64\<close>; with
  \<^verbatim>\<open>--disable_rag\<close> the two fields stay as loaded and \<^verbatim>\<open>rag\<close> is False.
\<close>

theorem rag_configuration_witness:
  "(\<exists>evs m t fe.
      get_model_and_auxiliaries example_env default_args [] = (evs, Inr (m, t, fe))
      \<and> config.rag (model.config m)
      \<and> config.k (model.config m) = Some 4
      \<and> config.retrieval_encoder (model.config m) = Some ''RN50x64'')
   \<and> (\<exists>evs m t fe.
      get_model_and_auxiliaries example_env (default_args\<lparr>disable_rag := True\<rparr>) []
        = (evs, Inr (m, t, fe))
      \<and> config.rag (model.config m) = False
      \<and> config.k (model.config m) = config.k (model.config example_model)
      \<and> config.retrieval_encoder (model.config m)
          = config.retrieval_encoder (model.config example_model))"
proof -
  obtain evs m t fe where
    run: "get_model_and_auxiliaries example_env default_args [] = (evs, Inr (m, t, fe))"
    by (simp add: example_simps)
  from rag_configuration [OF run]
  have on: "config.rag (model.config m) \<and> config.k (model.config m) = Some 4
      \<and> config.retrieval_encoder (model.config m) = Some ''RN50x64''"
    by (auto simp: default_args_def)
  obtain evs' m' t' fe' where
    run': "get_model_and_auxiliaries example_env (default_args\<lparr>disable_rag := True\<rparr>) []
        = (evs', Inr (m', t', fe'))"
    by (simp add: example_simps)
  from rag_configuration [OF run'] obtain pre f msg m0 where
    load: "SmallCap_from_encoder_decoder_pretrained example_env ([] @ pre)
        (encoder_name (default_args\<lparr>disable_rag := True\<rparr>))
        (decoder_name (default_args\<lparr>disable_rag := True\<rparr>)) f = Inr m0"
    and off: "config.rag (model.config m') = False"
      "config.k (model.config m') = config.k (model.config m0)"
      "config.retrieval_encoder (model.config m')
          = config.retrieval_encoder (model.config m0)"
    by (auto simp: default_args_def)
  from load have "m0 = example_model"
    by (simp add: example_env_def)
  with off run' on run show ?thesis by blast
qed

section \<open>Special tokens and the generation settings\<close>

text \<open>
  Claim C10. When the function returns, the tokenizer's pad token is \<^verbatim>\<open>!\<close> and its end
  token is \<^verbatim>\<open>.\<close>; \<^verbatim>\<open>model.config.pad_token_id\<close> and \<^verbatim>\<open>model.config.eos_token_id\<close> are
  the tokenizer's ids of these two tokens; \<^verbatim>\<open>model.config.vocab_size\<close> is the decoder
  configuration's vocabulary size (a sub-configuration the function does not touch),
  \<^verbatim>\<open>decoder_start_token_id\<close> is \<^verbatim>\<open>None\<close> and \<^verbatim>\<open>max_length\<close> is 25.
\<close>

theorem special_tokens_and_config:
  assumes "get_model_and_auxiliaries env a h = (evs, Inr (m, t, fe))"
  shows "\<exists>pre f msg m0.
      evs = pre @ [Call_SmallCap_from_encoder_decoder_pretrained
                     (encoder_name a) (decoder_name a) f, Print msg]
    \<and> SmallCap_from_encoder_decoder_pretrained env (h @ pre)
        (encoder_name a) (decoder_name a) f = Inr m0
    \<and> pad_token t = Some ''!''
    \<and> eos_token t = Some ''.''
    \<and> pad_token_id (model.config m) = tokenizer_pad_token_id t
    \<and> pad_token_id (model.config m) = convert_tokens_to_ids t ''!''
    \<and> eos_token_id (model.config m) = tokenizer_eos_token_id t
    \<and> eos_token_id (model.config m) = convert_tokens_to_ids t ''.''
    \<and> config.decoder (model.config m) = config.decoder (model.config m0)
    \<and> config.vocab_size (model.config m)
        = decoder_config.vocab_size (config.decoder (model.config m0))
    \<and> decoder_start_token_id (model.config m) = None
    \<and> max_length (model.config m) = 25"
proof -
  from assms obtain f0 tok0 m1 where
    t: "t = tok0\<lparr>pad_token := Some PAD_TOKEN, eos_token := Some EOS_TOKEN\<rparr>"
    by (rule get_model_and_auxiliaries_returns)
  from assms obtain pre f msg m0 where
    evs: "evs = pre @ [Call_SmallCap_from_encoder_decoder_pretrained
                    (encoder_name a) (decoder_name a) f, Print msg]"
    and load: "SmallCap_from_encoder_decoder_pretrained env (h @ pre)
       (encoder_name a) (decoder_name a) f = Inr m0"
    and m: "m = freeze a (m0\<lparr>model.config := configure a t (model.config m0)\<rparr>)"
    by (rule get_model_and_auxiliaries_loaded)
  have c: "model.config m = configure a t (model.config m0)"
    by (simp add: m freeze_config)
  have pad: "pad_token t = Some ''!''" and eos: "eos_token t = Some ''.''"
    by (simp_all add: t PAD_TOKEN_def EOS_TOKEN_def)
  have "pad_token_id (model.config m) = tokenizer_pad_token_id t"
    and "eos_token_id (model.config m) = tokenizer_eos_token_id t"
    and "pad_token_id (model.config m) = convert_tokens_to_ids t ''!''"
    and "eos_token_id (model.config m) = convert_tokens_to_ids t ''.''"
    and "config.decoder (model.config m) = config.decoder (model.config m0)"
    and "config.vocab_size (model.config m)
        = decoder_config.vocab_size (config.decoder (model.config m0))"
    and "decoder_start_token_id (model.config m) = None"
    and "max_length (model.config m) = 25"
    by (simp_all add: c configure_tokens tokenizer_pad_token_id_def
          tokenizer_eos_token_id_def pad eos CAPTION_LENGTH_def)
  with evs load pad eos show ?thesis by blast
qed

text \<open>
  In the concrete environment the vocabulary has \<^verbatim>\<open>!\<close> at 0 and \<^verbatim>\<open>.\<close> at 13, and the
  decoder's vocabulary has 50257 entries.
\<close>

theorem special_tokens_and_config_witness:
  "\<exists>evs m t fe.
      get_model_and_auxiliaries example_env default_args [] = (evs, Inr (m, t, fe))
      \<and> pad_token t = Some ''!''
      \<and> eos_token t = Some ''.''
      \<and> pad_token_id (model.config m) = Some 0
      \<and> eos_token_id (model.config m) = Some 13
      \<and> config.vocab_size (model.config m) = 50257
      \<and> decoder_start_token_id (model.config m) = None
      \<and> max_length (model.config m) = 25"
proof -
  obtain evs m t fe where
    run: "get_model_and_auxiliaries example_env default_args [] = (evs, Inr (m, t, fe))"
    and ids: "convert_tokens_to_ids t ''!'' = Some 0" "convert_tokens_to_ids t ''.'' = Some 13"
    by (simp add: example_simps)
  from special_tokens_and_config [OF run] obtain pre f msg m0 where
    load: "SmallCap_from_encoder_decoder_pretrained example_env ([] @ pre)
        (encoder_name default_args) (decoder_name default_args) f = Inr m0"
    and toks: "pad_token t = Some ''!''" "eos_token t = Some ''.''"
    and cfg: "pad_token_id (model.config m) = convert_tokens_to_ids t ''!''"
      "eos_token_id (model.config m) = convert_tokens_to_ids t ''.''"
      "config.vocab_size (model.config m)
        = decoder_config.vocab_size (config.decoder (model.config m0))"
      "decoder_start_token_id (model.config m) = None"
      "max_length (model.config m) = 25"
    by blast
  from load have m0: "m0 = example_model"
    by (simp add: example_env_def)
  have "config.vocab_size (model.config m) = 50257"
    using cfg(3) by (simp add: m0 example_model_def)
  with run toks cfg ids show ?thesis by auto
qed

section \<open>The calls that load the pretrained components\<close>

lemma register_classes_length: "length (register_classes name :: ('fe, 'rows) event list) = 5"
  by (simp add: register_classes_def)

text \<open>
  Claim C6. A run that returns made exactly these calls, in this order: the three
  registrations of the decoder's classes (XGLM when \<^verbatim>\<open>xglm\<close> is in the decoder's name,
  else OPT when \<^verbatim>\<open>opt\<close> is, else GPT-2), the two registrations of SmallCap, the load of
  the feature extractor from the encoder's name, the load of the tokenizer from the
  decoder's name, the load of the model from both names with the reduce factor that
  \<^verbatim>\<open>PARAMS2REDUCE_FACTOR\<close> holds for \<^verbatim>\<open>args.attention_size\<close>, and the print. The feature
  extractor, the tokenizer (with the two special tokens set) and the model (configured
  and frozen) that it returns are the ones these loads returned.
\<close>

theorem loading_calls:
  assumes "get_model_and_auxiliaries env a h = (evs, Inr (m, t, fe))"
  shows "\<exists>f tok0 m0.
      getitem PARAMS2REDUCE_FACTOR (attention_size a) = Inr f
    \<and> evs =
        (if sublist ''xglm'' (decoder_name a) then
           [AutoConfig_register ''this_xglm'' ThisXGLMConfig,
            AutoModel_register ThisXGLMConfig ThisXGLMForCausalLM,
            AutoModelForCausalLM_register ThisXGLMConfig ThisXGLMForCausalLM]
         else if sublist ''opt'' (decoder_name a) then
           [AutoConfig_register ''this_opt'' ThisOPTConfig,
            AutoModel_register ThisOPTConfig ThisOPTForCausalLM,
            AutoModelForCausalLM_register ThisOPTConfig ThisOPTForCausalLM]
         else
           [AutoConfig_register ''this_gpt2'' ThisGPT2Config,
            AutoModel_register ThisGPT2Config ThisGPT2LMHeadModel,
            AutoModelForCausalLM_register ThisGPT2Config ThisGPT2LMHeadModel])
        @ [AutoConfig_register ''smallcap'' SmallCapConfig,
           AutoModel_register SmallCapConfig SmallCap,
           Call_CLIPFeatureExtractor_from_pretrained (encoder_name a),
           Call_AutoTokenizer_from_pretrained (decoder_name a),
           Call_SmallCap_from_encoder_decoder_pretrained
             (encoder_name a) (decoder_name a) f,
           Print (trainable_message env m)]
    \<and> CLIPFeatureExtractor_from_pretrained env (h @ take 5 evs) (encoder_name a) = Inr fe
    \<and> AutoTokenizer_from_pretrained env (h @ take 6 evs) (decoder_name a) = Inr tok0
    \<and> t = tok0\<lparr>pad_token := Some ''!'', eos_token := Some ''.''\<rparr>
    \<and> SmallCap_from_encoder_decoder_pretrained env (h @ take 7 evs)
        (encoder_name a) (decoder_name a) f = Inr m0
    \<and> m = freeze a (m0\<lparr>model.config := configure a t (model.config m0)\<rparr>)"
proof -
  let ?regs = "register_classes (decoder_name a) :: ('a, 'b) event list"
  from assms obtain f tok0 m0 where
    f: "getitem PARAMS2REDUCE_FACTOR (attention_size a) = Inr f"
    and fe: "CLIPFeatureExtractor_from_pretrained env (h @ ?regs) (encoder_name a) = Inr fe"
    and tok: "AutoTokenizer_from_pretrained env
       (h @ ?regs @ [Call_CLIPFeatureExtractor_from_pretrained (encoder_name a)])
       (decoder_name a) = Inr tok0"
    and t: "t = tok0\<lparr>pad_token := Some PAD_TOKEN, eos_token := Some EOS_TOKEN\<rparr>"
    and load: "SmallCap_from_encoder_decoder_pretrained env
       (h @ ?regs
          @ [Call_CLIPFeatureExtractor_from_pretrained (encoder_name a),
             Call_AutoTokenizer_from_pretrained (decoder_name a)])
       (encoder_name a) (decoder_name a) f = Inr m0"
    and m: "m = freeze a (m0\<lparr>model.config := configure a t (model.config m0)\<rparr>)"
    and evs: "evs = ?regs
          @ [Call_CLIPFeatureExtractor_from_pretrained (encoder_name a),
             Call_AutoTokenizer_from_pretrained (decoder_name a),
             Call_SmallCap_from_encoder_decoder_pretrained
               (encoder_name a) (decoder_name a) f,
             Print (trainable_message env m)]"
    by (rule get_model_and_auxiliaries_returns)
  have t5: "take 5 evs = ?regs"
    and t6: "take 6 evs = ?regs @ [Call_CLIPFeatureExtractor_from_pretrained (encoder_name a)]"
    and t7: "take 7 evs = ?regs
          @ [Call_CLIPFeatureExtractor_from_pretrained (encoder_name a),
             Call_AutoTokenizer_from_pretrained (decoder_name a)]"
    by (simp_all add: evs register_classes_length)
  have "evs =
        (if sublist ''xglm'' (decoder_name a) then
           [AutoConfig_register ''this_xglm'' ThisXGLMConfig,
            AutoModel_register ThisXGLMConfig ThisXGLMForCausalLM,
            AutoModelForCausalLM_register ThisXGLMConfig ThisXGLMForCausalLM]
         else if sublist ''opt'' (decoder_name a) then
           [AutoConfig_register ''this_opt'' ThisOPTConfig,
            AutoModel_register ThisOPTConfig ThisOPTForCausalLM,
            AutoModelForCausalLM_register ThisOPTConfig ThisOPTForCausalLM]
         else
           [AutoConfig_register ''this_gpt2'' ThisGPT2Config,
            AutoModel_register ThisGPT2Config ThisGPT2LMHeadModel,
            AutoModelForCausalLM_register ThisGPT2Config ThisGPT2LMHeadModel])
        @ [AutoConfig_register ''smallcap'' SmallCapConfig,
           AutoModel_register SmallCapConfig SmallCap,
           Call_CLIPFeatureExtractor_from_pretrained (encoder_name a),
           Call_AutoTokenizer_from_pretrained (decoder_name a),
           Call_SmallCap_from_encoder_decoder_pretrained
             (encoder_name a) (decoder_name a) f,
           Print (trainable_message env m)]"
    unfolding evs by (simp add: register_classes_def)
  moreover have "t = tok0\<lparr>pad_token := Some ''!'', eos_token := Some ''.''\<rparr>"
    using t by (simp add: PAD_TOKEN_def EOS_TOKEN_def)
  ultimately show ?thesis
    using f fe tok load m unfolding t5 t6 t7 by blast
qed

text \<open>An XGLM decoder with attention size 3.5: the XGLM classes and the factor 8.\<close>

theorem loading_calls_witness:
  "\<exists>evs m t fe.
      get_model_and_auxiliaries example_env
        (default_args\<lparr>decoder_name := ''facebook/xglm-564M'',
           attention_size := PyFloat (7 / 2)\<rparr>) [] = (evs, Inr (m, t, fe))
      \<and> evs =
          [AutoConfig_register ''this_xglm'' ThisXGLMConfig,
           AutoModel_register ThisXGLMConfig ThisXGLMForCausalLM,
           AutoModelForCausalLM_register ThisXGLMConfig ThisXGLMForCausalLM,
           AutoConfig_register ''smallcap'' SmallCapConfig,
           AutoModel_register SmallCapConfig SmallCap,
           Call_CLIPFeatureExtractor_from_pretrained ''openai/clip-vit-base-patch32'',
           Call_AutoTokenizer_from_pretrained ''facebook/xglm-564M'',
           Call_SmallCap_from_encoder_decoder_pretrained
             ''openai/clip-vit-base-patch32'' ''facebook/xglm-564M'' 8,
           Print (trainable_message example_env m)]
      \<and> fe = ''openai/clip-vit-base-patch32''"
proof -
  let ?a = "default_args\<lparr>decoder_name := ''facebook/xglm-564M'',
              attention_size := PyFloat (7 / 2)\<rparr>"
  obtain evs m t fe where
    run: "get_model_and_auxiliaries example_env ?a [] = (evs, Inr (m, t, fe))"
    by (simp add: example_simps)
  from loading_calls [OF run] obtain f where
    f: "getitem PARAMS2REDUCE_FACTOR (attention_size ?a) = Inr f"
    and evs: "evs =
        (if sublist ''xglm'' (decoder_name ?a) then
           [AutoConfig_register ''this_xglm'' ThisXGLMConfig,
            AutoModel_register ThisXGLMConfig ThisXGLMForCausalLM,
            AutoModelForCausalLM_register ThisXGLMConfig ThisXGLMForCausalLM]
         else if sublist ''opt'' (decoder_name ?a) then
           [AutoConfig_register ''this_opt'' ThisOPTConfig,
            AutoModel_register ThisOPTConfig ThisOPTForCausalLM,
            AutoModelForCausalLM_register ThisOPTConfig ThisOPTForCausalLM]
         else
           [AutoConfig_register ''this_gpt2'' ThisGPT2Config,
            AutoModel_register ThisGPT2Config ThisGPT2LMHeadModel,
            AutoModelForCausalLM_register ThisGPT2Config ThisGPT2LMHeadModel])
        @ [AutoConfig_register ''smallcap'' SmallCapConfig,
           AutoModel_register SmallCapConfig SmallCap,
           Call_CLIPFeatureExtractor_from_pretrained (encoder_name ?a),
           Call_AutoTokenizer_from_pretrained (decoder_name ?a),
           Call_SmallCap_from_encoder_decoder_pretrained
             (encoder_name ?a) (decoder_name ?a) f,
           Print (trainable_message example_env m)]"
    and fe: "CLIPFeatureExtractor_from_pretrained example_env ([] @ take 5 evs)
               (encoder_name ?a) = Inr fe"
    by blast
  from f have f8: "f = 8"
    by (simp add: PARAMS2REDUCE_FACTOR_def default_args_def)
  from fe have fe': "fe = ''openai/clip-vit-base-patch32''"
    by (simp add: example_env_def default_args_def)
  from evs have "evs =
          [AutoConfig_register ''this_xglm'' ThisXGLMConfig,
           AutoModel_register ThisXGLMConfig ThisXGLMForCausalLM,
           AutoModelForCausalLM_register ThisXGLMConfig ThisXGLMForCausalLM,
           AutoConfig_register ''smallcap'' SmallCapConfig,
           AutoModel_register SmallCapConfig SmallCap,
           Call_CLIPFeatureExtractor_from_pretrained ''openai/clip-vit-base-patch32'',
           Call_AutoTokenizer_from_pretrained ''facebook/xglm-564M'',
           Call_SmallCap_from_encoder_decoder_pretrained
             ''openai/clip-vit-base-patch32'' ''facebook/xglm-564M'' 8,
           Print (trainable_message example_env m)]"
    by (simp add: f8 default_args_def sublist_code prefix_code)
  with run fe' show ?thesis by blast
qed

section \<open>The reduce factor and the KeyError\<close>

lemma getitem_PARAMS2REDUCE_FACTOR:
  "getitem PARAMS2REDUCE_FACTOR x =
     (if py_eq x (PyFloat 28) then Inr 1
      else if py_eq x (PyFloat 14) then Inr 2
      else if py_eq x (PyFloat 7) then Inr 4
      else if py_eq x (PyFloat (7 / 2)) then Inr 8
      else if py_eq x (PyFloat (7 / 4)) then Inr 16
      else Inl KeyError)"
  by (cases x) (auto simp: PARAMS2REDUCE_FACTOR_def)

lemma getitem_py_eq:
  "py_eq x (PyFloat q) \<Longrightarrow>
   getitem PARAMS2REDUCE_FACTOR x = getitem PARAMS2REDUCE_FACTOR (PyFloat q)"
  by (cases x) (auto simp: PARAMS2REDUCE_FACTOR_def)

lemma load_call_factor:
  assumes "Call_SmallCap_from_encoder_decoder_pretrained e d f
             \<in> set (fst (get_model_and_auxiliaries env a h))"
  shows "getitem PARAMS2REDUCE_FACTOR (attention_size a) = Inr f"
  using assms
  by (auto simp: get_model_and_auxiliaries_def Let_def register_classes_def
      split: sum.splits if_splits)

text \<open>
  Claim C8. When \<^verbatim>\<open>args.attention_size\<close> equals none of 28, 14, 7, 3.5 and 1.75 (by
  Python's \<^verbatim>\<open>==\<close>, so that the integer 7 and the float 7.0 both count as 7), the
  function raises \<^verbatim>\<open>KeyError\<close>, after the registrations and before any load. When it
  equals one of them, \<open>q\<close>, the table holds a factor for it, the factor is \<open>28 / q\<close>, and
  every load of the model that the function calls is given that factor. The five factors
  are 1, 2, 4, 8 and 16.
\<close>

theorem reduce_factor_lookup:
  "((\<forall>q \<in> {28, 14, 7, 7 / 2, 7 / 4}. \<not> py_eq (attention_size a) (PyFloat q)) \<longrightarrow>
       get_model_and_auxiliaries env a h = (register_classes (decoder_name a), Inl KeyError))
   \<and> (\<forall>q \<in> {28, 14, 7, 7 / 2, 7 / 4}. py_eq (attention_size a) (PyFloat q) \<longrightarrow>
         (\<exists>f. getitem PARAMS2REDUCE_FACTOR (attention_size a) = Inr f
              \<and> rat_of_int f = 28 / q
              \<and> (\<forall>e d f'. Call_SmallCap_from_encoder_decoder_pretrained e d f'
                     \<in> set (fst (get_model_and_auxiliaries env a h)) \<longrightarrow> f' = f)))
   \<and> getitem PARAMS2REDUCE_FACTOR (PyFloat 28) = Inr 1
   \<and> getitem PARAMS2REDUCE_FACTOR (PyFloat 14) = Inr 2
   \<and> getitem PARAMS2REDUCE_FACTOR (PyFloat 7) = Inr 4
   \<and> getitem PARAMS2REDUCE_FACTOR (PyFloat (7 / 2)) = Inr 8
   \<and> getitem PARAMS2REDUCE_FACTOR (PyFloat (7 / 4)) = Inr 16"
proof -
  have key: "(\<forall>q \<in> {28, 14, 7, 7 / 2, 7 / 4}. \<not> py_eq (attention_size a) (PyFloat q)) \<longrightarrow>
       get_model_and_auxiliaries env a h = (register_classes (decoder_name a), Inl KeyError)"
    by (simp add: get_model_and_auxiliaries_def Let_def getitem_PARAMS2REDUCE_FACTOR)
  have val: "\<forall>q \<in> {28, 14, 7, 7 / 2, 7 / 4}. py_eq (attention_size a) (PyFloat q) \<longrightarrow>
         (\<exists>f. getitem PARAMS2REDUCE_FACTOR (attention_size a) = Inr f
              \<and> rat_of_int f = 28 / q
              \<and> (\<forall>e d f'. Call_SmallCap_from_encoder_decoder_pretrained e d f'
                     \<in> set (fst (get_model_and_auxiliaries env a h)) \<longrightarrow> f' = f))"
  proof (intro ballI impI)
    fix q :: rat
    assume q: "q \<in> {28, 14, 7, 7 / 2, 7 / 4}" and eq: "py_eq (attention_size a) (PyFloat q)"
    from eq have same: "getitem PARAMS2REDUCE_FACTOR (attention_size a)
        = getitem PARAMS2REDUCE_FACTOR (PyFloat q)"
      by (rule getitem_py_eq)
    from q have "q = 28 \<or> q = 14 \<or> q = 7 \<or> q = 7 / 2 \<or> q = 7 / 4"
      by blast
    then obtain f where
      f: "getitem PARAMS2REDUCE_FACTOR (attention_size a) = Inr f" and v: "rat_of_int f = 28 / q"
      unfolding same by (elim disjE) (simp_all add: PARAMS2REDUCE_FACTOR_def)
    have "\<forall>e d f'. Call_SmallCap_from_encoder_decoder_pretrained e d f'
             \<in> set (fst (get_model_and_auxiliaries env a h)) \<longrightarrow> f' = f"
      using f by (auto dest: load_call_factor)
    with f v show "\<exists>f. getitem PARAMS2REDUCE_FACTOR (attention_size a) = Inr f
              \<and> rat_of_int f = 28 / q
              \<and> (\<forall>e d f'. Call_SmallCap_from_encoder_decoder_pretrained e d f'
                     \<in> set (fst (get_model_and_auxiliaries env a h)) \<longrightarrow> f' = f)"
      by blast
  qed
  have tab: "getitem PARAMS2REDUCE_FACTOR (PyFloat 28) = Inr 1"
    "getitem PARAMS2REDUCE_FACTOR (PyFloat 14) = Inr 2"
    "getitem PARAMS2REDUCE_FACTOR (PyFloat 7) = Inr 4"
    "getitem PARAMS2REDUCE_FACTOR (PyFloat (7 / 2)) = Inr 8"
    "getitem PARAMS2REDUCE_FACTOR (PyFloat (7 / 4)) = Inr 16"
    by (simp_all add: getitem_PARAMS2REDUCE_FACTOR)
  from key val tab show ?thesis by blast
qed

text \<open>
  Attention size 5.0 and NaN raise \<^verbatim>\<open>KeyError\<close> after the five registrations; the
  default, the integer 7, has the factor 4.
\<close>

theorem reduce_factor_lookup_witness:
  "get_model_and_auxiliaries example_env (default_args\<lparr>attention_size := PyFloat 5\<rparr>) []
     = (register_classes ''gpt2'', Inl KeyError)
   \<and> get_model_and_auxiliaries example_env (default_args\<lparr>attention_size := PyNaN\<rparr>) []
     = (register_classes ''gpt2'', Inl KeyError)
   \<and> py_eq (attention_size default_args) (PyFloat 7)
   \<and> (\<exists>f. getitem PARAMS2REDUCE_FACTOR (attention_size default_args) = Inr f
          \<and> rat_of_int f = 28 / 7 \<and> f = 4)"
proof -
  let ?five = "default_args\<lparr>attention_size := PyFloat 5\<rparr>"
  let ?nan = "default_args\<lparr>attention_size := PyNaN\<rparr>"
  have "\<forall>q \<in> {28, 14, 7, 7 / 2, 7 / 4}. \<not> py_eq (attention_size ?five) (PyFloat q)"
    by simp
  with reduce_factor_lookup [of ?five example_env "[]"]
  have five: "get_model_and_auxiliaries example_env ?five []
      = (register_classes (decoder_name ?five), Inl KeyError)"
    by blast
  have "\<forall>q \<in> {28, 14, 7, 7 / 2, 7 / 4}. \<not> py_eq (attention_size ?nan) (PyFloat q)"
    by simp
  with reduce_factor_lookup [of ?nan example_env "[]"]
  have nan: "get_model_and_auxiliaries example_env ?nan []
      = (register_classes (decoder_name ?nan), Inl KeyError)"
    by blast
  have seven: "py_eq (attention_size default_args) (PyFloat 7)"
    by (simp add: default_args_def)
  have "(7::rat) \<in> {28, 14, 7, 7 / 2, 7 / 4}"
    by simp
  with reduce_factor_lookup [of default_args example_env "[]"] seven
  obtain f where f: "getitem PARAMS2REDUCE_FACTOR (attention_size default_args) = Inr f"
    and v: "rat_of_int f = 28 / 7"
    by blast
  from v have "rat_of_int f = rat_of_int 4"
    by simp
  then have "f = 4"
    by (simp only: of_int_eq_iff)
  with five nan seven f v show ?thesis
    by (simp add: default_args_def)
qed

section \<open>The training dataset\<close>

lemma get_data_returns:
  assumes "get_data env tok max_len a h = (evs, Inr ds)"
  obtains data rows where
    "evs = [Call_load_data_for_training (annotations_path a) (captions_path a)]"
    "load_data_for_training env h (annotations_path a) (captions_path a) = Inr data"
    "data ''train'' = Some rows"
    "ds = (if ablation_visual a then AblationFeaturesDataset else TrainDataset)
            \<lparr> df = DataFrame rows,
              features_path = path_join (features_dir a) ''train.hdf5'',
              tokenizer = tok,
              rag = \<not> disable_rag a,
              template_path = args.template_path a,
              k = args.k a,
              max_caption_length = max_len \<rparr>"
  using assms
  by (auto simp: get_data_def Let_def split: sum.splits option.splits if_splits)

text \<open>
  Claim C3. When \<^verbatim>\<open>get_data\<close> returns, it has read the annotations once, they have a
  \<^verbatim>\<open>train\<close> split, and the dataset is an \<^verbatim>\<open>AblationFeaturesDataset\<close> when
  \<^verbatim>\<open>args.ablation_visual\<close> is set and a \<^verbatim>\<open>TrainDataset\<close> otherwise, built in both cases
  from the same keyword arguments: the data frame of the \<^verbatim>\<open>train\<close> split, the features
  directory joined with \<^verbatim>\<open>train.hdf5\<close>, the tokenizer, \<^verbatim>\<open>rag = not args.disable_rag\<close>, the
  template path, \<^verbatim>\<open>k = args.k\<close> and the caption length given. So the dataset is told to
  use the retrieved captions exactly when \<^verbatim>\<open>--disable_rag\<close> is absent.
\<close>

theorem training_dataset:
  assumes "get_data env tok max_len a h = (evs, Inr ds)"
  shows "\<exists>data rows.
      evs = [Call_load_data_for_training (annotations_path a) (captions_path a)]
    \<and> load_data_for_training env h (annotations_path a) (captions_path a) = Inr data
    \<and> data ''train'' = Some rows
    \<and> ds = (if ablation_visual a then AblationFeaturesDataset else TrainDataset)
            \<lparr> df = DataFrame rows,
              features_path = path_join (features_dir a) ''train.hdf5'',
              tokenizer = tok,
              rag = \<not> disable_rag a,
              template_path = args.template_path a,
              k = args.k a,
              max_caption_length = max_len \<rparr>"
  using assms by (elim get_data_returns) blast

text \<open>
  The default arguments give a \<^verbatim>\<open>TrainDataset\<close> with \<^verbatim>\<open>rag\<close> True over the three rows of
  the concrete training split; with \<^verbatim>\<open>--ablation_visual --disable_rag\<close> and a features
  directory without a final separator, an \<^verbatim>\<open>AblationFeaturesDataset\<close> with \<^verbatim>\<open>rag\<close> False.
\<close>

lemmas example_data_simps =
  get_data_def example_env_def default_args_def Let_def path_join_def prefix_code
  suffix_to_prefix

theorem training_dataset_witness:
  "get_data example_env example_tokenizer 25 default_args []
     = ([Call_load_data_for_training
           ''/kaggle/input/karpathy-splits/dataset_coco.json''
           ''/kaggle/working/retrieved_caps_resnet50x64.json''],
        Inr (TrainDataset
           \<lparr> df = DataFrame [0, 1, 2],
             features_path = ''/kaggle/working/features/train.hdf5'',
             tokenizer = example_tokenizer,
             rag = True,
             template_path = ''/kaggle/working/smallcap/src/template.txt'',
             k = 4,
             max_caption_length = 25 \<rparr>))
   \<and> get_data example_env example_tokenizer 25
       (default_args\<lparr>ablation_visual := True, disable_rag := True,
          features_dir := ''features''\<rparr>) []
     = ([Call_load_data_for_training
           ''/kaggle/input/karpathy-splits/dataset_coco.json''
           ''/kaggle/working/retrieved_caps_resnet50x64.json''],
        Inr (AblationFeaturesDataset
           \<lparr> df = DataFrame [0, 1, 2],
             features_path = ''features/train.hdf5'',
             tokenizer = example_tokenizer,
             rag = False,
             template_path = ''/kaggle/working/smallcap/src/template.txt'',
             k = 4,
             max_caption_length = 25 \<rparr>))"
proof -
  let ?b = "default_args\<lparr>ablation_visual := True, disable_rag := True,
          features_dir := ''features''\<rparr>"
  obtain evs ds where
    run: "get_data example_env example_tokenizer 25 default_args [] = (evs, Inr ds)"
    by (simp add: example_data_simps)
  from training_dataset [OF run] obtain data rows where
    evs: "evs = [Call_load_data_for_training (annotations_path default_args)
                   (captions_path default_args)]"
    and load: "load_data_for_training example_env [] (annotations_path default_args)
                 (captions_path default_args) = Inr data"
    and rows: "data ''train'' = Some rows"
    and ds: "ds = (if ablation_visual default_args
                   then AblationFeaturesDataset else TrainDataset)
            \<lparr> df = DataFrame rows,
              features_path = path_join (features_dir default_args) ''train.hdf5'',
              tokenizer = example_tokenizer,
              rag = \<not> disable_rag default_args,
              template_path = args.template_path default_args,
              k = args.k default_args,
              max_caption_length = 25 \<rparr>"
    by blast
  from load rows have r: "rows = [0, 1, 2]"
    by (auto simp: example_env_def)
  have 1: "get_data example_env example_tokenizer 25 default_args []
     = ([Call_load_data_for_training
           ''/kaggle/input/karpathy-splits/dataset_coco.json''
           ''/kaggle/working/retrieved_caps_resnet50x64.json''],
        Inr (TrainDataset
           \<lparr> df = DataFrame [0, 1, 2],
             features_path = ''/kaggle/working/features/train.hdf5'',
             tokenizer = example_tokenizer,
             rag = True,
             template_path = ''/kaggle/working/smallcap/src/template.txt'',
             k = 4,
             max_caption_length = 25 \<rparr>))"
    unfolding run evs ds r
    by (simp add: default_args_def path_join_def prefix_code suffix_to_prefix)
  obtain evs' ds' where
    run': "get_data example_env example_tokenizer 25 ?b [] = (evs', Inr ds')"
    by (simp add: example_data_simps)
  from training_dataset [OF run'] obtain data' rows' where
    evs': "evs' = [Call_load_data_for_training (annotations_path ?b) (captions_path ?b)]"
    and load': "load_data_for_training example_env [] (annotations_path ?b)
                 (captions_path ?b) = Inr data'"
    and rows': "data' ''train'' = Some rows'"
    and ds': "ds' = (if ablation_visual ?b then AblationFeaturesDataset else TrainDataset)
            \<lparr> df = DataFrame rows',
              features_path = path_join (features_dir ?b) ''train.hdf5'',
              tokenizer = example_tokenizer,
              rag = \<not> disable_rag ?b,
              template_path = args.template_path ?b,
              k = args.k ?b,
              max_caption_length = 25 \<rparr>"
    by blast
  from load' rows' have r': "rows' = [0, 1, 2]"
    by (auto simp: example_env_def)
  have 2: "get_data example_env example_tokenizer 25 ?b []
     = ([Call_load_data_for_training
           ''/kaggle/input/karpathy-splits/dataset_coco.json''
           ''/kaggle/working/retrieved_caps_resnet50x64.json''],
        Inr (AblationFeaturesDataset
           \<lparr> df = DataFrame [0, 1, 2],
             features_path = ''features/train.hdf5'',
             tokenizer = example_tokenizer,
             rag = False,
             template_path = ''/kaggle/working/smallcap/src/template.txt'',
             k = 4,
             max_caption_length = 25 \<rparr>))"
    unfolding run' evs' ds' r'
    by (simp add: default_args_def path_join_def prefix_code suffix_to_prefix)
  from 1 2 show ?thesis by (rule conjI)
qed

section \<open>What main hands to the trainer\<close>

text \<open>
  Neither \<^verbatim>\<open>get_model_and_auxiliaries\<close> nor \<^verbatim>\<open>get_data\<close> starts a training run, so
  a training call among the events of \<^verbatim>\<open>main\<close> is the one of line 139, made after both
  returned and after the training arguments and the trainer of lines 118-137 were
  built without an exception.
\<close>

lemma get_model_and_auxiliaries_no_train:
  "Call_train tr \<notin> set (fst (get_model_and_auxiliaries env a h))"
  by (auto simp: get_model_and_auxiliaries_def Let_def register_classes_def
      split: sum.splits if_splits)

lemma get_data_no_train:
  "Call_train tr \<notin> set (fst (get_data env tok max_len a h))"
  by (auto simp: get_data_def Let_def split: sum.splits option.splits if_splits)

lemma main_train_call:
  assumes "Call_train tr \<in> set (fst (main env a h))"
  obtains ev1 m t fe ev2 ds where
    "get_model_and_auxiliaries env a h = (ev1, Inr (m, t, fe))"
    "get_data env t (max_length (model.config m)) a (h @ ev1) = (ev2, Inr ds)"
    "Seq2SeqTrainingArguments_init env (h @ ev1 @ ev2) (main_training_args env a) = Inr ()"
    "Seq2SeqTrainer_init env (h @ ev1 @ ev2) tr = Inr ()"
    "tr = \<lparr> model = m,
            args = main_training_args env a,
            data_collator = default_data_collator,
            train_dataset = ds,
            tokenizer = fe \<rparr>"
proof -
  obtain ev1 r1 where gm: "get_model_and_auxiliaries env a h = (ev1, r1)"
    by (cases "get_model_and_auxiliaries env a h")
  have nt1: "Call_train tr \<notin> set ev1"
    using get_model_and_auxiliaries_no_train [of tr env a h] by (simp add: gm)
  show thesis
  proof (cases r1)
    case (Inl e)
    with assms gm nt1 show thesis by (simp add: main_def)
  next
    case (Inr res)
    obtain m t fe where res: "res = (m, t, fe)"
      by (cases res)
    obtain ev2 r2 where
      gd: "get_data env t (max_length (model.config m)) a (h @ ev1) = (ev2, r2)"
      by (cases "get_data env t (max_length (model.config m)) a (h @ ev1)")
    have nt2: "Call_train tr \<notin> set ev2"
      using get_data_no_train [of tr env t "max_length (model.config m)" a "h @ ev1"]
      by (simp add: gd)
    show thesis
    proof (cases r2)
      case (Inl e)
      with assms gm Inr res gd nt1 nt2 show thesis by (simp add: main_def)
    next
      case r2: (Inr ds)
      let ?trainer = "\<lparr> model = m,
            args = main_training_args env a,
            data_collator = default_data_collator,
            train_dataset = ds,
            tokenizer = fe \<rparr>"
      show thesis
      proof (cases "Seq2SeqTrainingArguments_init env (h @ ev1 @ ev2)
                      (main_training_args env a)")
        case (Inl e)
        with assms gm Inr res gd r2 nt1 nt2 show thesis
          by (simp add: main_def Let_def)
      next
        case c1: (Inr u)
        show thesis
        proof (cases "Seq2SeqTrainer_init env (h @ ev1 @ ev2) ?trainer")
          case (Inl e)
          with assms gm Inr res gd r2 c1 nt1 nt2 show thesis
            by (simp add: main_def Let_def)
        next
          case c2: (Inr u')
          from assms gm Inr res gd r2 c1 c2 nt1 nt2 have tr: "tr = ?trainer"
            by (simp add: main_def Let_def)
          from gm Inr res have "get_model_and_auxiliaries env a h = (ev1, Inr (m, t, fe))"
            by simp
          moreover from gd r2
          have "get_data env t (max_length (model.config m)) a (h @ ev1) = (ev2, Inr ds)"
            by simp
          moreover from c1
          have "Seq2SeqTrainingArguments_init env (h @ ev1 @ ev2)
                  (main_training_args env a) = Inr ()"
            by simp
          moreover from c2 tr have "Seq2SeqTrainer_init env (h @ ev1 @ ev2) tr = Inr ()"
            by simp
          ultimately show thesis using tr by (rule that)
        qed
      qed
    qed
  qed
qed

text \<open>And when nothing before it raises, the training call is made.\<close>

lemma main_trains:
  assumes "get_model_and_auxiliaries env a h = (ev1, Inr (m, t, fe))"
    and "get_data env t (max_length (model.config m)) a (h @ ev1) = (ev2, Inr ds)"
    and "Seq2SeqTrainingArguments_init env (h @ ev1 @ ev2) (main_training_args env a) = Inr ()"
    and "Seq2SeqTrainer_init env (h @ ev1 @ ev2)
           \<lparr> model = m,
             args = main_training_args env a,
             data_collator = default_data_collator,
             train_dataset = ds,
             tokenizer = fe \<rparr> = Inr ()"
  shows "main env a h =
      (ev1 @ ev2 @
         [Call_train \<lparr> model = m,
            args = main_training_args env a,
            data_collator = default_data_collator,
            train_dataset = ds,
            tokenizer = fe \<rparr>],
       train env (h @ ev1 @ ev2)
         \<lparr> model = m,
           args = main_training_args env a,
           data_collator = default_data_collator,
           train_dataset = ds,
           tokenizer = fe \<rparr>)"
  by (simp add: main_def assms Let_def)

lemma example_main_trains:
  "\<exists>tr. Call_train tr \<in> set (fst (main example_env default_args []))"
  "\<exists>tr. Call_train tr \<in> set (fst (main example_env
      (default_args\<lparr>disable_rag := True, ablation_visual := True\<rparr>) []))"
  by (simp_all add: main_def example_simps get_data_def split: prod.splits)

text \<open>
  Claim C7. The trainer on which \<^verbatim>\<open>main\<close> calls \<^verbatim>\<open>train()\<close> has training arguments
  that mirror the command line: \<^verbatim>\<open>num_train_epochs\<close> and \<^verbatim>\<open>save_total_limit\<close> are
  \<^verbatim>\<open>args.n_epochs\<close>, \<^verbatim>\<open>per_device_train_batch_size\<close> is \<^verbatim>\<open>args.batch_size\<close>,
  \<^verbatim>\<open>gradient_accumulation_steps\<close> is \<^verbatim>\<open>args.gradient_steps\<close>, \<^verbatim>\<open>learning_rate\<close> is
  \<^verbatim>\<open>args.lr\<close>; \<^verbatim>\<open>fp16\<close> and \<^verbatim>\<open>overwrite_output_dir\<close> are True, and the save and
  logging strategies are \<^verbatim>\<open>epoch\<close>.
\<close>

theorem training_arguments:
  assumes "Call_train tr \<in> set (fst (main env a h))"
  shows "num_train_epochs (Seq2SeqTrainer.args tr) = n_epochs a
    \<and> per_device_train_batch_size (Seq2SeqTrainer.args tr) = batch_size a
    \<and> gradient_accumulation_steps (Seq2SeqTrainer.args tr) = gradient_steps a
    \<and> learning_rate (Seq2SeqTrainer.args tr) = lr a
    \<and> save_total_limit (Seq2SeqTrainer.args tr) = n_epochs a
    \<and> fp16 (Seq2SeqTrainer.args tr) = True
    \<and> save_strategy (Seq2SeqTrainer.args tr) = ''epoch''
    \<and> logging_strategy (Seq2SeqTrainer.args tr) = ''epoch''
    \<and> overwrite_output_dir (Seq2SeqTrainer.args tr) = True"
  using assms
  by (elim main_train_call) (simp add: main_training_args_def)

text \<open>
  The defaults: 10 epochs, batches of 64, one accumulation step, and the double nearest
  to 0.0001 as the rate.
\<close>

theorem training_arguments_witness:
  "\<exists>tr. Call_train tr \<in> set (fst (main example_env default_args []))
      \<and> num_train_epochs (Seq2SeqTrainer.args tr) = 10
      \<and> per_device_train_batch_size (Seq2SeqTrainer.args tr) = 64
      \<and> gradient_accumulation_steps (Seq2SeqTrainer.args tr) = 1
      \<and> learning_rate (Seq2SeqTrainer.args tr)
          = PyFloat (7378697629483821 / 73786976294838206464)
      \<and> save_total_limit (Seq2SeqTrainer.args tr) = 10
      \<and> fp16 (Seq2SeqTrainer.args tr)
      \<and> save_strategy (Seq2SeqTrainer.args tr) = ''epoch''
      \<and> logging_strategy (Seq2SeqTrainer.args tr) = ''epoch''
      \<and> overwrite_output_dir (Seq2SeqTrainer.args tr)"
proof -
  from example_main_trains(1) obtain tr where
    tr: "Call_train tr \<in> set (fst (main example_env default_args []))"
    by blast
  from training_arguments [OF tr] have
    "num_train_epochs (Seq2SeqTrainer.args tr) = 10
      \<and> per_device_train_batch_size (Seq2SeqTrainer.args tr) = 64
      \<and> gradient_accumulation_steps (Seq2SeqTrainer.args tr) = 1
      \<and> learning_rate (Seq2SeqTrainer.args tr)
          = PyFloat (7378697629483821 / 73786976294838206464)
      \<and> save_total_limit (Seq2SeqTrainer.args tr) = 10
      \<and> fp16 (Seq2SeqTrainer.args tr)
      \<and> save_strategy (Seq2SeqTrainer.args tr) = ''epoch''
      \<and> logging_strategy (Seq2SeqTrainer.args tr) = ''epoch''
      \<and> overwrite_output_dir (Seq2SeqTrainer.args tr)"
    by (simp add: default_args_def)
  with tr show ?thesis by blast
qed

section \<open>The output directory\<close>

lemma path_join_relative:
  "\<not> prefix ''/'' b \<Longrightarrow> path_join ''/kaggle/working/'' b = ''/kaggle/working/'' @ b"
  by (simp add: path_join_def suffix_to_prefix prefix_code)

lemma experiments_dir_unused_parts:
  "configure (a\<lparr>experiments_dir := x\<rparr>) t c = configure a t c"
  "freeze (a\<lparr>experiments_dir := x\<rparr>) m = freeze a m"
  "main_training_args env (a\<lparr>experiments_dir := x\<rparr>) = main_training_args env a"
  by (simp_all add: configure_def freeze_def main_training_args_def main_output_dir_def
      Let_def cong: if_cong)

lemma experiments_dir_unused:
  "get_model_and_auxiliaries env (a\<lparr>experiments_dir := x\<rparr>) h = get_model_and_auxiliaries env a h"
  "get_data env tok max_len (a\<lparr>experiments_dir := x\<rparr>) h = get_data env tok max_len a h"
  by (simp_all add: get_model_and_auxiliaries_def get_data_def experiments_dir_unused_parts
      Let_def split: sum.splits option.splits)

text \<open>
  Claim C9. Let the name be \<^verbatim>\<open>norag\<close> (with \<^verbatim>\<open>--disable_rag\<close>) or \<^verbatim>\<open>rag\<close> (without),
  then \<^verbatim>\<open>_\<close>, the attention size as Python prints it, \<^verbatim>\<open>M_\<close>, the decoder's name, and
  \<^verbatim>\<open>_ablation\<close> appended exactly when \<^verbatim>\<open>args.ablation_visual\<close> is set. The output
  directory of the trainer on which \<^verbatim>\<open>main\<close> calls \<^verbatim>\<open>train()\<close> is \<^verbatim>\<open>/kaggle/working/\<close>
  joined with that name, which is the name appended to \<^verbatim>\<open>/kaggle/working/\<close>. The run of
  \<^verbatim>\<open>main\<close> does not depend on \<^verbatim>\<open>args.experiments_dir\<close>.
\<close>

theorem output_directory:
  fixes a :: args and env :: "('fe, 'rows) env"
  defines "name \<equiv>
     (if disable_rag a then ''norag'' else ''rag'') @ ''_''
       @ str_number env (attention_size a) @ ''M_'' @ decoder_name a
       @ (if ablation_visual a then ''_ablation'' else '''')"
  assumes "Call_train tr \<in> set (fst (main env a h))"
  shows "output_dir (Seq2SeqTrainer.args tr) = path_join ''/kaggle/working/'' name
    \<and> output_dir (Seq2SeqTrainer.args tr) = ''/kaggle/working/'' @ name
    \<and> main env (a\<lparr>experiments_dir := x\<rparr>) h = main env a h"
proof -
  have rel: "\<not> prefix ''/'' name"
    by (simp add: name_def prefix_code)
  from assms(2) have "output_dir (Seq2SeqTrainer.args tr) = main_output_dir env a"
    by (elim main_train_call) (simp add: main_training_args_def)
  also have "main_output_dir env a = path_join ''/kaggle/working/'' name"
    by (simp add: main_output_dir_def name_def Let_def)
  finally have 1: "output_dir (Seq2SeqTrainer.args tr) = path_join ''/kaggle/working/'' name" .
  have 2: "output_dir (Seq2SeqTrainer.args tr) = ''/kaggle/working/'' @ name"
    unfolding 1 using rel by (rule path_join_relative)
  have 3: "main env (a\<lparr>experiments_dir := x\<rparr>) h = main env a h"
    by (simp add: main_def experiments_dir_unused experiments_dir_unused_parts
        split: prod.splits sum.splits)
  from 1 2 3 show ?thesis by blast
qed

text \<open>
  The defaults train into \<^verbatim>\<open>/kaggle/working/rag_7M_gpt2\<close>; with \<^verbatim>\<open>--disable_rag\<close> and
  \<^verbatim>\<open>--ablation_visual\<close>, into \<^verbatim>\<open>/kaggle/working/norag_7M_gpt2_ablation\<close>; another
  \<^verbatim>\<open>--experiments_dir\<close> changes nothing.
\<close>

theorem output_directory_witness:
  "(\<exists>tr. Call_train tr \<in> set (fst (main example_env default_args []))
      \<and> output_dir (Seq2SeqTrainer.args tr) = ''/kaggle/working/rag_7M_gpt2'')
   \<and> (\<exists>tr. Call_train tr \<in> set (fst (main example_env
          (default_args\<lparr>disable_rag := True, ablation_visual := True\<rparr>) []))
      \<and> output_dir (Seq2SeqTrainer.args tr) = ''/kaggle/working/norag_7M_gpt2_ablation'')
   \<and> main example_env (default_args\<lparr>experiments_dir := ''/tmp/out''\<rparr>) []
       = main example_env default_args []"
proof -
  let ?b = "default_args\<lparr>disable_rag := True, ablation_visual := True\<rparr>"
  from example_main_trains(1) obtain tr where
    tr: "Call_train tr \<in> set (fst (main example_env default_args []))"
    by blast
  note od = output_directory [OF tr, of "''/tmp/out''"]
  from od [THEN conjunct2, THEN conjunct1]
  have 1: "output_dir (Seq2SeqTrainer.args tr) = ''/kaggle/working/rag_7M_gpt2''"
    by (simp add: default_args_def example_env_def)
  from od [THEN conjunct2, THEN conjunct2]
  have 3: "main example_env (default_args\<lparr>experiments_dir := ''/tmp/out''\<rparr>) []
       = main example_env default_args []" .
  from example_main_trains(2) obtain tr' where
    tr': "Call_train tr' \<in> set (fst (main example_env ?b []))"
    by blast
  from output_directory [OF tr', of "''/tmp/out''", THEN conjunct2, THEN conjunct1]
  have 2: "output_dir (Seq2SeqTrainer.args tr') = ''/kaggle/working/norag_7M_gpt2_ablation''"
    by (simp add: default_args_def example_env_def)
  from tr 1 tr' 2 3 show ?thesis by blast
qed

section \<open>The sequence of main\<close>

lemma no_train_filter:
  assumes "\<And>tr. Call_train tr \<notin> set evs"
  shows "filter (\<lambda>e. case e of Call_train tr \<Rightarrow> True | _ \<Rightarrow> False) evs = []"
  using assms by (auto simp: filter_empty_conv split: event.splits)

lemma get_model_and_auxiliaries_train_filter:
  assumes "get_model_and_auxiliaries env a h = (ev1, r)"
  shows "filter (\<lambda>e. case e of Call_train tr \<Rightarrow> True | _ \<Rightarrow> False) ev1 = []"
proof (rule no_train_filter)
  fix tr :: "('a, 'b) Seq2SeqTrainer"
  show "Call_train tr \<notin> set ev1"
    using get_model_and_auxiliaries_no_train [of tr env a h] assms by simp
qed

lemma get_data_train_filter:
  assumes "get_data env tok max_len a h = (ev2, r)"
  shows "filter (\<lambda>e. case e of Call_train tr \<Rightarrow> True | _ \<Rightarrow> False) ev2 = []"
proof (rule no_train_filter)
  fix tr :: "('a, 'b) Seq2SeqTrainer"
  show "Call_train tr \<notin> set ev2"
    using get_data_no_train [of tr env tok max_len a h] assms by simp
qed

lemma main_train_at_most_once:
  "length (filter (\<lambda>e. case e of Call_train tr \<Rightarrow> True | _ \<Rightarrow> False)
             (fst (main env a h))) \<le> 1"
proof -
  obtain ev1 r1 where gm: "get_model_and_auxiliaries env a h = (ev1, r1)"
    by (cases "get_model_and_auxiliaries env a h")
  note f1 = get_model_and_auxiliaries_train_filter [OF gm]
  show ?thesis
  proof (cases r1)
    case (Inl e)
    with gm f1 show ?thesis by (simp add: main_def)
  next
    case (Inr res)
    obtain m t fe where res: "res = (m, t, fe)"
      by (cases res)
    obtain ev2 r2 where
      gd: "get_data env t (max_length (model.config m)) a (h @ ev1) = (ev2, r2)"
      by (cases "get_data env t (max_length (model.config m)) a (h @ ev1)")
    note f2 = get_data_train_filter [OF gd]
    from gm Inr res gd f1 f2 show ?thesis
      by (cases r2) (simp_all add: main_def Let_def split: sum.splits)
  qed
qed

text \<open>
  Claim C5. A training call among the events of \<^verbatim>\<open>main\<close> comes last and alone:
  \<^verbatim>\<open>get_model_and_auxiliaries\<close> returned, then \<^verbatim>\<open>get_data\<close>, called with the returned
  tokenizer and \<^verbatim>\<open>model.config.max_length\<close> (which is 25), returned; the events of
  \<^verbatim>\<open>main\<close> are those of the first, then those of the second, then that one call, on
  the trainer built from the returned model, the training arguments, the default data
  collator, the dataset and the feature extractor; and the result of \<^verbatim>\<open>main\<close> is the
  call's. Conversely, when both functions return and neither the training arguments nor
  the trainer raise on construction, \<^verbatim>\<open>main\<close> makes that call, once. No run of
  \<^verbatim>\<open>main\<close> has more than one training call.
\<close>

theorem main_sequence:
  "(Call_train tr \<in> set (fst (main env a h)) \<longrightarrow>
      (\<exists>ev1 m t fe ev2 ds.
          get_model_and_auxiliaries env a h = (ev1, Inr (m, t, fe))
        \<and> get_data env t (max_length (model.config m)) a (h @ ev1) = (ev2, Inr ds)
        \<and> max_length (model.config m) = 25
        \<and> max_caption_length
              (case ds of TrainDataset kw \<Rightarrow> kw | AblationFeaturesDataset kw \<Rightarrow> kw) = 25
        \<and> tr = \<lparr> model = m,
                  args = main_training_args env a,
                  data_collator = default_data_collator,
                  train_dataset = ds,
                  tokenizer = fe \<rparr>
        \<and> main env a h = (ev1 @ ev2 @ [Call_train tr], train env (h @ ev1 @ ev2) tr)
        \<and> filter (\<lambda>e. case e of Call_train tr \<Rightarrow> True | _ \<Rightarrow> False)
              (fst (main env a h)) = [Call_train tr]))
   \<and> (get_model_and_auxiliaries env a h = (evl, Inr (mdl, tok, ext))
        \<and> get_data env tok (max_length (model.config mdl)) a (h @ evl) = (evd, Inr dset)
        \<and> Seq2SeqTrainingArguments_init env (h @ evl @ evd) (main_training_args env a)
            = Inr ()
        \<and> Seq2SeqTrainer_init env (h @ evl @ evd)
              \<lparr> model = mdl,
                args = main_training_args env a,
                data_collator = default_data_collator,
                train_dataset = dset,
                tokenizer = ext \<rparr> = Inr ()
      \<longrightarrow>
        main env a h =
          (evl @ evd @
             [Call_train \<lparr> model = mdl,
                args = main_training_args env a,
                data_collator = default_data_collator,
                train_dataset = dset,
                tokenizer = ext \<rparr>],
           train env (h @ evl @ evd)
             \<lparr> model = mdl,
               args = main_training_args env a,
               data_collator = default_data_collator,
               train_dataset = dset,
               tokenizer = ext \<rparr>)
      \<and> filter (\<lambda>e. case e of Call_train tr \<Rightarrow> True | _ \<Rightarrow> False)
              (fst (main env a h))
          = [Call_train \<lparr> model = mdl,
                args = main_training_args env a,
                data_collator = default_data_collator,
                train_dataset = dset,
                tokenizer = ext \<rparr>])
   \<and> length (filter (\<lambda>e. case e of Call_train tr \<Rightarrow> True | _ \<Rightarrow> False)
               (fst (main env a h))) \<le> 1"
proof (intro conjI impI)
  assume called: "Call_train tr \<in> set (fst (main env a h))"
  then obtain ev1 m t fe ev2 ds where
    gm: "get_model_and_auxiliaries env a h = (ev1, Inr (m, t, fe))"
    and gd: "get_data env t (max_length (model.config m)) a (h @ ev1) = (ev2, Inr ds)"
    and c1: "Seq2SeqTrainingArguments_init env (h @ ev1 @ ev2) (main_training_args env a)
        = Inr ()"
    and c2: "Seq2SeqTrainer_init env (h @ ev1 @ ev2) tr = Inr ()"
    and tr: "tr = \<lparr> model = m,
            args = main_training_args env a,
            data_collator = default_data_collator,
            train_dataset = ds,
            tokenizer = fe \<rparr>"
    by (rule main_train_call)
  from gm gd c1 c2 [unfolded tr]
  have run: "main env a h = (ev1 @ ev2 @ [Call_train tr], train env (h @ ev1 @ ev2) tr)"
    unfolding tr by (rule main_trains)
  have once: "filter (\<lambda>e. case e of Call_train tr \<Rightarrow> True | _ \<Rightarrow> False)
      (fst (main env a h)) = [Call_train tr]"
    by (simp add: run get_model_and_auxiliaries_train_filter [OF gm]
        get_data_train_filter [OF gd])
  from gm obtain pre f msg m0 where
    "m = freeze a (m0\<lparr>model.config := configure a t (model.config m0)\<rparr>)"
    by (rule get_model_and_auxiliaries_loaded)
  then have len: "max_length (model.config m) = 25"
    by (simp add: freeze_config configure_tokens CAPTION_LENGTH_def)
  from gd have cap: "max_caption_length
          (case ds of TrainDataset kw \<Rightarrow> kw | AblationFeaturesDataset kw \<Rightarrow> kw) = 25"
    by (elim get_data_returns) (simp add: len)
  from gm gd len cap tr run once
  show "\<exists>ev1 m t fe ev2 ds.
          get_model_and_auxiliaries env a h = (ev1, Inr (m, t, fe))
        \<and> get_data env t (max_length (model.config m)) a (h @ ev1) = (ev2, Inr ds)
        \<and> max_length (model.config m) = 25
        \<and> max_caption_length
              (case ds of TrainDataset kw \<Rightarrow> kw | AblationFeaturesDataset kw \<Rightarrow> kw) = 25
        \<and> tr = \<lparr> model = m,
                  args = main_training_args env a,
                  data_collator = default_data_collator,
                  train_dataset = ds,
                  tokenizer = fe \<rparr>
        \<and> main env a h = (ev1 @ ev2 @ [Call_train tr], train env (h @ ev1 @ ev2) tr)
        \<and> filter (\<lambda>e. case e of Call_train tr \<Rightarrow> True | _ \<Rightarrow> False)
              (fst (main env a h)) = [Call_train tr]"
    by blast
next
  let ?trainer = "\<lparr> model = mdl,
                args = main_training_args env a,
                data_collator = default_data_collator,
                train_dataset = dset,
                tokenizer = ext \<rparr>"
  assume all: "get_model_and_auxiliaries env a h = (evl, Inr (mdl, tok, ext))
        \<and> get_data env tok (max_length (model.config mdl)) a (h @ evl) = (evd, Inr dset)
        \<and> Seq2SeqTrainingArguments_init env (h @ evl @ evd) (main_training_args env a)
            = Inr ()
        \<and> Seq2SeqTrainer_init env (h @ evl @ evd) ?trainer = Inr ()"
  then have gm: "get_model_and_auxiliaries env a h = (evl, Inr (mdl, tok, ext))"
    and gd: "get_data env tok (max_length (model.config mdl)) a (h @ evl) = (evd, Inr dset)"
    and c1: "Seq2SeqTrainingArguments_init env (h @ evl @ evd) (main_training_args env a)
            = Inr ()"
    and c2: "Seq2SeqTrainer_init env (h @ evl @ evd) ?trainer = Inr ()"
    by simp_all
  from gm gd c1 c2
  show run: "main env a h =
      (evl @ evd @ [Call_train ?trainer], train env (h @ evl @ evd) ?trainer)"
    by (rule main_trains)
  show "filter (\<lambda>e. case e of Call_train tr \<Rightarrow> True | _ \<Rightarrow> False)
      (fst (main env a h)) = [Call_train ?trainer]"
    by (simp add: run get_model_and_auxiliaries_train_filter [OF gm]
        get_data_train_filter [OF gd])
next
  show "length (filter (\<lambda>e. case e of Call_train tr \<Rightarrow> True | _ \<Rightarrow> False)
               (fst (main env a h))) \<le> 1"
    by (rule main_train_at_most_once)
qed

text \<open>
  The default arguments: nine events of loading, one read of the annotations, one
  training call, which returns.
\<close>

theorem main_sequence_witness:
  "\<exists>ev1 m t fe ev2 ds tr.
      get_model_and_auxiliaries example_env default_args [] = (ev1, Inr (m, t, fe))
    \<and> get_data example_env t 25 default_args ev1 = (ev2, Inr ds)
    \<and> length ev1 = 9
    \<and> ev2 = [Call_load_data_for_training (annotations_path default_args)
                (captions_path default_args)]
    \<and> tr = \<lparr> model = m,
              args = main_training_args example_env default_args,
              data_collator = default_data_collator,
              train_dataset = ds,
              tokenizer = fe \<rparr>
    \<and> Call_train tr \<in> set (fst (main example_env default_args []))
    \<and> main example_env default_args [] = (ev1 @ ev2 @ [Call_train tr], Inr ())
    \<and> filter (\<lambda>e. case e of Call_train tr \<Rightarrow> True | _ \<Rightarrow> False)
          (fst (main example_env default_args [])) = [Call_train tr]"
proof -
  obtain ev1 m t fe where
    gm: "get_model_and_auxiliaries example_env default_args [] = (ev1, Inr (m, t, fe))"
    and len: "length ev1 = 9" and ml: "max_length (model.config m) = 25"
    by (simp add: example_simps)
  obtain ev2 ds where
    gd: "get_data example_env t 25 default_args ([] @ ev1) = (ev2, Inr ds)"
    and ev2: "ev2 = [Call_load_data_for_training (annotations_path default_args)
                (captions_path default_args)]"
    by (simp add: get_data_def example_env_def default_args_def Let_def)
  define tr where "tr = \<lparr> model = m,
              args = main_training_args example_env default_args,
              data_collator = default_data_collator,
              train_dataset = ds,
              tokenizer = fe \<rparr>"
  from gd have gd': "get_data example_env t (max_length (model.config m)) default_args
      ([] @ ev1) = (ev2, Inr ds)"
    by (simp add: ml)
  have c1: "Seq2SeqTrainingArguments_init example_env ([] @ ev1 @ ev2)
      (main_training_args example_env default_args) = Inr ()"
    by (simp add: example_env_def)
  have c2: "Seq2SeqTrainer_init example_env ([] @ ev1 @ ev2)
      \<lparr> model = m,
        args = main_training_args example_env default_args,
        data_collator = default_data_collator,
        train_dataset = ds,
        tokenizer = fe \<rparr> = Inr ()"
    by (simp add: example_env_def)
  note inst = main_sequence [where env = example_env and a = default_args and h = "[]"
      and tr = tr and evl = ev1 and mdl = m and tok = t and ext = fe and evd = ev2
      and dset = ds]
  from inst [THEN conjunct2, THEN conjunct1] gm gd' c1 c2
  have run: "main example_env default_args []
      = (ev1 @ ev2 @ [Call_train tr], train example_env ([] @ ev1 @ ev2) tr)"
    unfolding tr_def by blast
  then have called: "Call_train tr \<in> set (fst (main example_env default_args []))"
    by simp
  from inst [THEN conjunct1] called
  have once: "filter (\<lambda>e. case e of Call_train tr \<Rightarrow> True | _ \<Rightarrow> False)
          (fst (main example_env default_args [])) = [Call_train tr]"
    by blast
  have "train example_env ([] @ ev1 @ ev2) tr = Inr ()"
    by (simp add: example_env_def)
  with run have run': "main example_env default_args [] = (ev1 @ ev2 @ [Call_train tr], Inr ())"
    by simp
  from gd have gd0: "get_data example_env t 25 default_args ev1 = (ev2, Inr ds)"
    by simp
  from gm gd0 len ev2 tr_def called run' once show ?thesis
    by blast
qed

end
